theory Spec2Isabelle
  imports Main
begin

section \<open>Time\<close>

text \<open>
  Every datetime the Scheduling Engine compares carries the same tzinfo object
  (\<^verbatim>\<open>ct_tz = gettz('America/Chicago')\<close>): \<^verbatim>\<open>now_ct\<close> is created with it, and each
  proposed, candidate and visit time is passed through \<^verbatim>\<open>replace(tzinfo=ct_tz)\<close> or
  \<^verbatim>\<open>astimezone(ct_tz)\<close> before it is used. Python compares and subtracts such values
  on their wall-clock fields, so a datetime is modelled as its position on the
  Central-Time wall clock, counted in microseconds (the resolution of
  \<^verbatim>\<open>datetime\<close>) from a midnight. A \<^verbatim>\<open>timedelta\<close> is a number of microseconds, a
  \<^verbatim>\<open>date\<close> is a day number. A naive datetime (one without tzinfo) is its fields,
  counted in the same way.

  A tzinfo is modelled by its \<^verbatim>\<open>utcoffset\<close>, a function of the wall-clock fields; for
  \<^verbatim>\<open>America/Chicago\<close> the time zone database gives -6 hours in standard time and -5
  hours in daylight time. The zone is taken to be in the database, so that \<^verbatim>\<open>gettz\<close>
  returns it.

  \<^verbatim>\<open>timedelta.total_seconds()\<close> is the microsecond count divided by \<open>10^6\<close> as a
  float; for the counts that occur here \<^verbatim>\<open>total_seconds() < 3600\<close> holds exactly when
  the count is below \<open>3600 * 10^6\<close>, which is how the comparison is written below.
\<close>

type_synonym datetime = int
type_synonym timedelta = int
type_synonym date = int
type_synonym tzinfo = "datetime \<Rightarrow> timedelta"

definition us_per_second :: int where
  "us_per_second = 1000000"

definition timedelta_minutes :: "int \<Rightarrow> timedelta" where
  "timedelta_minutes m = m * 60 * us_per_second"

definition timedelta_hours :: "int \<Rightarrow> timedelta" where
  "timedelta_hours h = h * 3600 * us_per_second"

definition timedelta_days :: "int \<Rightarrow> timedelta" where
  "timedelta_days d = d * 86400 * us_per_second"

definition date_of :: "datetime \<Rightarrow> date" where
  "date_of t = t div timedelta_days 1"

definition hour_of :: "datetime \<Rightarrow> int" where
  "hour_of t = (t mod timedelta_days 1) div timedelta_hours 1"

text \<open>\<^verbatim>\<open>datetime.combine(d, datetime.min.time().replace(hour=h, minute=0))\<close>\<close>

definition combine :: "date \<Rightarrow> int \<Rightarrow> datetime" where
  "combine d h = d * timedelta_days 1 + timedelta_hours h"

section \<open>The availability context and the conflict test\<close>

text \<open>
  A stored value is a date, a string, an object id, a number, a truth value or null.
  A stored date is an instant, kept in whole milliseconds. The client of \<^verbatim>\<open>models.py\<close>
  is \<^verbatim>\<open>MongoClient(MONGODB_URI)\<close>, without \<^verbatim>\<open>tz_aware\<close>: it hands a stored date to
  Python as a naive datetime that holds the UTC fields of the instant. \<open>BDate t\<close> is
  the stored date that is read back as the naive datetime \<open>t\<close>.
\<close>

datatype bson = BDate datetime | BStr string | BOid nat | BInt int | BBool bool | BNull

text \<open>
  What the driver writes for a datetime, in a document and in a query alike: the UTC
  instant in whole milliseconds, which is the datetime less its \<^verbatim>\<open>utcoffset()\<close> when it
  has a tzinfo and the datetime as it stands when it is naive, the microseconds
  below a millisecond dropped. The result is given as the naive datetime the date
  is read back as.
\<close>

definition encode_datetime :: "tzinfo option \<Rightarrow> datetime \<Rightarrow> datetime" where
  "encode_datetime tz t =
     (let utc = (case tz of None \<Rightarrow> t | Some utcoffset \<Rightarrow> t - utcoffset t)
      in utc - utc mod 1000)"

text \<open>
  One entry of the list \<^verbatim>\<open>get_visit_availability\<close> returns has four keys.
  \<^verbatim>\<open>scheduledTime\<close> holds \<^verbatim>\<open>v["scheduledTime"].isoformat()\<close>, the ISO text of the naive
  datetime the driver returned; it is written as that naive datetime, which is what
  \<^verbatim>\<open>datetime.fromisoformat\<close> makes of the text again.
\<close>

record avail_visit =
  visitId :: nat
  scheduledTime :: datetime
  dealerPhoneNumber :: "bson option"
  status :: bson

text \<open>\<^verbatim>\<open>time_diff = abs((candidate_time - visit_time).total_seconds())\<close>, in microseconds.\<close>

definition time_diff :: "datetime \<Rightarrow> datetime \<Rightarrow> timedelta" where
  "time_diff candidate_time visit_time = \<bar>candidate_time - visit_time\<bar>"

text \<open>The test \<^verbatim>\<open>time_diff < 3600\<close> of the four loops.\<close>

definition less_than_1_hour_apart :: "datetime \<Rightarrow> datetime \<Rightarrow> bool" where
  "less_than_1_hour_apart candidate_time visit_time \<longleftrightarrow>
     time_diff candidate_time visit_time < 3600 * us_per_second"

text \<open>
  The first statements of the body of each of the four loops over the context:
  \<^verbatim>\<open>visit_time = datetime.fromisoformat(visit['scheduledTime']) ...
  if visit_time.tzinfo is None:
      visit_time = visit_time.replace(tzinfo=ct_tz)\<close>
  The parsed text has no offset, so this branch is the one taken. \<^verbatim>\<open>replace\<close> keeps
  the fields and attaches the tzinfo: the UTC fields of the stored instant are read as
  a time of the Central-Time wall clock.
\<close>

definition visit_time :: "avail_visit \<Rightarrow> datetime" where
  "visit_time visit = scheduledTime visit"

text \<open>
  The loop
  \<^verbatim>\<open>conflict = False
  for visit in existing_visits:
      ...
      if time_diff < 3600: conflict = True; break\<close>
  which occurs, with the same body, in \<^verbatim>\<open>process_visit_scheduling\<close>,
  \<^verbatim>\<open>find_next_available_time\<close> and twice in \<^verbatim>\<open>propose_available_time\<close>.
\<close>

fun conflict :: "datetime \<Rightarrow> avail_visit list \<Rightarrow> bool" where
  "conflict t [] = False"
| "conflict t (visit # existing_visits) =
     (if less_than_1_hour_apart t (visit_time visit) then True
      else conflict t existing_visits)"

section \<open>The visits collection\<close>

text \<open>
  A document of a MongoDB collection: its \<^verbatim>\<open>_id\<close> and its other keys. A collection is
  the list of its documents in insertion order. The database calls are taken not to
  fail.
\<close>

record document =
  oid :: nat
  body :: "string \<rightharpoonup> bson"

text \<open>
  \<^verbatim>\<open>Visit.find({"scheduledTime": {"$gte": start_date, "$lte": end_date},
              "status": {"$ne": "cancelled"}})\<close>
  followed by the list comprehension of \<^verbatim>\<open>get_visit_availability\<close>. A range operator
  with a date operand matches only a date, and \<^verbatim>\<open>$ne\<close> also matches a document without
  the key. The query has no other key. Both bounds are aware datetimes, \<open>ct_tz\<close>
  being their tzinfo; the driver writes them into the query as instants, and the
  server compares instants.
\<close>

fun get_visit_availability ::
  "tzinfo \<Rightarrow> datetime \<Rightarrow> datetime \<Rightarrow> document list \<Rightarrow> avail_visit list" where
  "get_visit_availability ct_tz start_date end_date [] = []"
| "get_visit_availability ct_tz start_date end_date (v # visits) =
     (case body v ''scheduledTime'' of
        Some (BDate t) \<Rightarrow>
          if encode_datetime (Some ct_tz) start_date \<le> t
             \<and> t \<le> encode_datetime (Some ct_tz) end_date
             \<and> body v ''status'' \<noteq> Some (BStr ''cancelled'')
          then \<lparr>visitId = oid v, scheduledTime = t,
                 dealerPhoneNumber = body v ''dealerPhoneNumber'',
                 status = (case body v ''status'' of None \<Rightarrow> BStr ''scheduled'' | Some x \<Rightarrow> x)\<rparr>
               # get_visit_availability ct_tz start_date end_date visits
          else get_visit_availability ct_tz start_date end_date visits
      | _ \<Rightarrow> get_visit_availability ct_tz start_date end_date visits)"

text \<open>
  \<^verbatim>\<open>create_visit\<close>: the document it builds and \<^verbatim>\<open>Visit.create\<close> (\<^verbatim>\<open>insert_one\<close>), which
  writes it. Every caller passes an aware \<^verbatim>\<open>scheduled_time\<close>, \<open>ct_tz\<close> being its tzinfo,
  so the driver stores the instant of that Central-Time reading. \<open>wall\<close> is the
  reading of \<^verbatim>\<open>datetime.now()\<close>, which is naive; \<open>new_oid\<close> is the id the driver gives
  the inserted document. An id string and its \<^verbatim>\<open>ObjectId\<close> are the same number here;
  the thread id the webhook passes is the \<^verbatim>\<open>str\<close> of an \<^verbatim>\<open>ObjectId\<close>, and an id is
  never the empty string.
\<close>

definition create_visit ::
  "tzinfo \<Rightarrow> datetime \<Rightarrow> nat \<Rightarrow> nat \<Rightarrow> datetime \<Rightarrow> string \<Rightarrow> nat option \<Rightarrow> string option
     \<Rightarrow> document list \<Rightarrow> nat \<times> document list" where
  "create_visit ct_tz wall new_oid thread_id scheduled_time dealer_phone_number car_listing_id
       notes visits =
     (let visit_data = [''threadId'' \<mapsto> BOid thread_id,
                        ''scheduledTime'' \<mapsto> BDate (encode_datetime (Some ct_tz) scheduled_time),
                        ''dealerPhoneNumber'' \<mapsto> BStr dealer_phone_number,
                        ''status'' \<mapsto> BStr ''scheduled'',
                        ''createdAt'' \<mapsto> BDate (encode_datetime None wall),
                        ''updatedAt'' \<mapsto> BDate (encode_datetime None wall)];
          visit_data = (case car_listing_id of
                          Some c \<Rightarrow> visit_data(''carListingId'' \<mapsto> BOid c)
                        | None \<Rightarrow> visit_data);
          visit_data = (case notes of
                          Some n \<Rightarrow> if n \<noteq> [] then visit_data(''notes'' \<mapsto> BStr n) else visit_data
                        | None \<Rightarrow> visit_data)
      in (new_oid, visits @ [\<lparr>oid = new_oid, body = visit_data\<rparr>]))"

section \<open>The Scheduling Engine\<close>

text \<open>
  The text of a reply, by the f-string that builds it, with the time it formats:
  \<^item> \<open>Perfect t\<close>: "Perfect! I've scheduled a visit for ... Central Time. Looking
    forward to seeing you then!"
  \<^item> \<open>NotExact t\<close>: "I'm not available at that exact time, but how about ... Central
    Time? I've scheduled it for then."
  \<^item> \<open>ComeBy t\<close>: "I'll come by at ... Central Time - thank you."
  \<^item> \<open>HowAbout t\<close>: "How about ... Central Time? I've scheduled it for then."
  \<^item> \<open>BookedUp\<close>: "I'm pretty booked up over the next couple days. What times work
    best for you?"
  \<^item> \<open>ReadyToSchedule\<close>: "I'm ready to schedule a visit. What date and time works for
    you?"
\<close>

datatype reply = Perfect datetime | NotExact datetime | ComeBy datetime | HowAbout datetime
  | BookedUp | ReadyToSchedule

record sched_result =
  message :: reply
  visit_scheduled :: bool

text \<open>
  The body of the loop \<^verbatim>\<open>for offset_minutes in [-30, 30, -60, 60, -90, 90]\<close> of
  \<^verbatim>\<open>find_next_available_time\<close>. Each pass reads \<^verbatim>\<open>datetime.now(ct_tz)\<close> anew:
  \<open>clock i\<close> is the reading of pass \<open>i\<close>.
\<close>

fun time_slots_loop ::
  "(nat \<Rightarrow> datetime) \<Rightarrow> nat \<Rightarrow> int list \<Rightarrow> datetime \<Rightarrow> avail_visit list \<Rightarrow> datetime
     \<Rightarrow> datetime list" where
  "time_slots_loop clock i [] proposed_time existing_visits end_date = []"
| "time_slots_loop clock i (offset_minutes # offsets) proposed_time existing_visits end_date =
     (let candidate_time = proposed_time + timedelta_minutes offset_minutes;
          later = time_slots_loop clock (Suc i) offsets proposed_time existing_visits end_date
      in if candidate_time < clock i \<or> candidate_time > end_date then later
         else if \<not> conflict candidate_time existing_visits then candidate_time # later
         else later)"

text \<open>
  \<^verbatim>\<open>time_slots.sort(key=lambda t: abs((t - proposed_time).total_seconds()))\<close> is a stable
  sort, as \<^const>\<open>sort_key\<close> is.
\<close>

definition find_next_available_time ::
  "(nat \<Rightarrow> datetime) \<Rightarrow> datetime \<Rightarrow> avail_visit list \<Rightarrow> datetime \<Rightarrow> datetime option" where
  "find_next_available_time clock proposed_time existing_visits end_date =
     (let time_slots = time_slots_loop clock 0 [- 30, 30, - 60, 60, - 90, 90] proposed_time
                         existing_visits end_date
      in case sort_key (\<lambda>t. time_diff t proposed_time) time_slots of
           [] \<Rightarrow> None
         | t # _ \<Rightarrow> Some t)"

text \<open>
  The inner loop \<^verbatim>\<open>for hour in ...\<close> of \<^verbatim>\<open>propose_available_time\<close>, for one
  \<^verbatim>\<open>current_date\<close>: the first candidate that is inside the window and free, if any.
\<close>

fun try_hours ::
  "date \<Rightarrow> int list \<Rightarrow> datetime \<Rightarrow> datetime \<Rightarrow> avail_visit list \<Rightarrow> datetime option" where
  "try_hours current_date [] now_ct end_date existing_visits = None"
| "try_hours current_date (hour # hours) now_ct end_date existing_visits =
     (let candidate_time = combine current_date hour
      in if candidate_time < now_ct \<or> candidate_time > end_date
         then try_hours current_date hours now_ct end_date existing_visits
         else if \<not> conflict candidate_time existing_visits then Some candidate_time
         else try_hours current_date hours now_ct end_date existing_visits)"

text \<open>The loop \<^verbatim>\<open>while current_date <= end_date_only\<close>.\<close>

function scan_days ::
  "date \<Rightarrow> date \<Rightarrow> int list \<Rightarrow> datetime \<Rightarrow> datetime \<Rightarrow> avail_visit list \<Rightarrow> datetime option" where
  "scan_days current_date end_date_only hours now_ct end_date existing_visits =
     (if current_date \<le> end_date_only then
        (case try_hours current_date hours now_ct end_date existing_visits of
           Some candidate_time \<Rightarrow> Some candidate_time
         | None \<Rightarrow> scan_days (current_date + 1) end_date_only hours now_ct end_date
                     existing_visits)
      else None)"
  by pat_completeness auto
termination
  by (relation "measure (\<lambda>(current_date, end_date_only, _). nat (end_date_only + 1 - current_date))")
    auto

declare scan_days.simps [simp del]

record database =
  threads :: "document list"
  messages :: "document list"
  carlistings :: "document list"
  visits :: "document list"

definition propose_available_time ::
  "datetime \<Rightarrow> nat \<Rightarrow> datetime \<Rightarrow> datetime \<Rightarrow> avail_visit list \<Rightarrow> tzinfo \<Rightarrow> nat \<Rightarrow> string
     \<Rightarrow> nat option \<Rightarrow> database \<Rightarrow> sched_result \<times> database" where
  "propose_available_time wall new_oid now_ct end_date existing_visits ct_tz thread_id
       dealer_phone_number car_listing_id db =
     (let preferred_hours = [10, 14, 16];
          start_date = now_ct + timedelta_days 1;
          start_date = (if hour_of now_ct < 10 then combine (date_of now_ct) 10 else start_date);
          current_date = date_of start_date;
          end_date_only = date_of end_date
      in case scan_days current_date end_date_only preferred_hours now_ct end_date
                existing_visits of
           Some candidate_time \<Rightarrow>
             (\<lparr>message = ComeBy candidate_time, visit_scheduled = True\<rparr>,
              db\<lparr>visits := snd (create_visit ct_tz wall new_oid thread_id candidate_time
                                  dealer_phone_number car_listing_id None (visits db))\<rparr>)
         | None \<Rightarrow>
             (case scan_days current_date end_date_only [9..17] now_ct end_date
                     existing_visits of
                Some candidate_time \<Rightarrow>
                  (\<lparr>message = HowAbout candidate_time, visit_scheduled = True\<rparr>,
                   db\<lparr>visits := snd (create_visit ct_tz wall new_oid thread_id candidate_time
                                       dealer_phone_number car_listing_id None (visits db))\<rparr>)
              | None \<Rightarrow> (\<lparr>message = BookedUp, visit_scheduled = False\<rparr>, db)))"

text \<open>
  What \<^verbatim>\<open>process_visit_scheduling\<close> reads from outside: whether \<^verbatim>\<open>openai_client\<close> is set,
  the tzinfo \<^verbatim>\<open>gettz('America/Chicago')\<close> returns, the clock (\<^verbatim>\<open>datetime.now(ct_tz)\<close> at
  the start and in each pass of the alternative search, and the naive
  \<^verbatim>\<open>datetime.now()\<close>), the id of the document it may insert, the three values it takes from
  the model's JSON reply (\<open>None\<close> when the call, \<^verbatim>\<open>json.loads\<close> or the \<^verbatim>\<open>get\<close>s raise;
  a value is a string or null), and the outcome of parsing the proposed time (lines
  1084 to 1094: \<^verbatim>\<open>fromisoformat\<close> or \<^verbatim>\<open>date_parser.parse\<close>, then the Central-Time
  tzinfo; \<open>None\<close> when that raises).
\<close>

record extraction =
  dealer_proposed_date :: "string option"
  dealer_proposed_time :: "string option"
  dealer_proposed_datetime :: "string option"

record environment =
  client_configured :: bool
  gettz_America_Chicago :: tzinfo
  now_ct_reading :: datetime
  later_readings :: "nat \<Rightarrow> datetime"
  wall_reading :: datetime
  inserted_id :: nat
  model_reply :: "extraction option"
  parse_proposed :: "extraction \<Rightarrow> datetime option"

text \<open>Python's truth value of a string or \<^verbatim>\<open>None\<close>.\<close>

fun truthy :: "string option \<Rightarrow> bool" where
  "truthy None = False"
| "truthy (Some s) = (s \<noteq> [])"

text \<open>\<^verbatim>\<open>CarListing.find_one({"threadId": ObjectId(thread_id)})\<close> and the id taken from it.\<close>

fun find_car_listing_id :: "nat \<Rightarrow> document list \<Rightarrow> nat option" where
  "find_car_listing_id thread_id [] = None"
| "find_car_listing_id thread_id (c # cs) =
     (if body c ''threadId'' = Some (BOid thread_id) then Some (oid c)
      else find_car_listing_id thread_id cs)"

definition process_visit_scheduling ::
  "environment \<Rightarrow> nat \<Rightarrow> string \<Rightarrow> database \<Rightarrow> sched_result option \<times> database" where
  "process_visit_scheduling env thread_id dealer_phone_number db =
     (if \<not> client_configured env then (None, db)
      else
        let ct_tz = gettz_America_Chicago env;
            now_ct = now_ct_reading env;
            end_date = now_ct + timedelta_days 2;
            existing_visits = get_visit_availability ct_tz now_ct end_date (visits db);
            propose = (\<lambda>_::unit.
              let (result, db') = propose_available_time (wall_reading env) (inserted_id env)
                    now_ct end_date existing_visits ct_tz thread_id dealer_phone_number
                    (find_car_listing_id thread_id (carlistings db)) db
              in (Some result, db'))
        in case model_reply env of
             None \<Rightarrow> (Some \<lparr>message = ReadyToSchedule, visit_scheduled = False\<rparr>, db)
           | Some data \<Rightarrow>
               let car_listing_id = find_car_listing_id thread_id (carlistings db)
               in if truthy (dealer_proposed_date data) \<and> truthy (dealer_proposed_time data)
                  then
                    (case parse_proposed env data of
                       None \<Rightarrow> propose ()
                     | Some proposed_time \<Rightarrow>
                         if proposed_time < now_ct then propose ()
                         else if conflict proposed_time existing_visits then
                           (case find_next_available_time (later_readings env) proposed_time
                                   existing_visits end_date of
                              Some alternative_time \<Rightarrow>
                                (Some \<lparr>message = NotExact alternative_time,
                                        visit_scheduled = True\<rparr>,
                                 db\<lparr>visits := snd (create_visit ct_tz (wall_reading env)
                                       (inserted_id env) thread_id alternative_time
                                       dealer_phone_number car_listing_id None (visits db))\<rparr>)
                            | None \<Rightarrow> propose ())
                         else
                           (Some \<lparr>message = Perfect proposed_time, visit_scheduled = True\<rparr>,
                            db\<lparr>visits := snd (create_visit ct_tz (wall_reading env)
                                  (inserted_id env) thread_id proposed_time
                                  dealer_phone_number car_listing_id None (visits db))\<rparr>))
                  else propose ())"

section \<open>The availability context as the specification words it\<close>

text \<open>
  The specification's sentence: the existing non-cancelled visits \<^emph>\<open>of that thread\<close>
  within the window. It is compared below with what \<^verbatim>\<open>process_visit_scheduling\<close> loads.
\<close>

definition thread_availability_context ::
  "tzinfo \<Rightarrow> nat \<Rightarrow> datetime \<Rightarrow> document list \<Rightarrow> avail_visit list" where
  "thread_availability_context ct_tz thread_id now_ct vs =
     get_visit_availability ct_tz now_ct (now_ct + timedelta_days 2)
       (filter (\<lambda>v. body v ''threadId'' = Some (BOid thread_id)) vs)"

section \<open>A scenario: two dealers, one calendar\<close>

text \<open>The tzinfo of the scenarios: daylight time, 5 hours behind UTC.\<close>

definition central_daylight :: tzinfo where
  "central_daylight = (\<lambda>_. timedelta_hours (- 5))"

text \<open>
  It is midnight of day 0, in daylight time. The collection holds one visit, of
  thread 2, whose stored date is read back as 10:00 of day 1 (the visit is at 10:00
  UTC). The dealer of thread 1 proposes day 1 at 10:00.
\<close>

definition scenario_db :: database where
  "scenario_db = \<lparr>threads = [], messages = [], carlistings = [],
     visits = [\<lparr>oid = 7, body = [''threadId'' \<mapsto> BOid 2,
        ''scheduledTime'' \<mapsto> BDate (combine 1 10),
        ''dealerPhoneNumber'' \<mapsto> BStr ''+15550002'',
        ''status'' \<mapsto> BStr ''scheduled'']\<rparr>]\<rparr>"

definition scenario_env :: environment where
  "scenario_env = \<lparr>client_configured = True,
     gettz_America_Chicago = central_daylight, now_ct_reading = 0,
     later_readings = (\<lambda>_. 1), wall_reading = 0, inserted_id = 8,
     model_reply = Some \<lparr>dealer_proposed_date = Some ''2024-06-07'',
       dealer_proposed_time = Some ''10:00'',
       dealer_proposed_datetime = Some ''2024-06-07T10:00:00''\<rparr>,
     parse_proposed = (\<lambda>_. Some (combine 1 10))\<rparr>"

text \<open>
  The same collection at noon of day 0, when the dealer of thread 1 proposes 11:00 of
  day 0.
\<close>

definition past_env :: environment where
  "past_env = scenario_env\<lparr>now_ct_reading := combine 0 12,
      parse_proposed := (\<lambda>_. Some (combine 0 11))\<rparr>"

section \<open>A scenario: a free hour this afternoon\<close>




section \<open>A scenario: the same hour twice\<close>

text \<open>
  It is 08:00 of day 0, in daylight time, and the visits collection is empty. The
  dealer of thread 2 proposes day 1 at 10:00. An hour later the dealer of thread 1
  proposes day 1 at 10:00 as well.
\<close>

definition empty_db :: database where
  "empty_db = \<lparr>threads = [], messages = [], carlistings = [], visits = []\<rparr>"

definition first_env :: environment where
  "first_env = \<lparr>client_configured = True,
     gettz_America_Chicago = central_daylight,
     now_ct_reading = combine 0 8, later_readings = (\<lambda>_. combine 0 8),
     wall_reading = combine 0 8, inserted_id = 8,
     model_reply = Some \<lparr>dealer_proposed_date = Some ''2024-06-07'',
       dealer_proposed_time = Some ''10:00'',
       dealer_proposed_datetime = Some ''2024-06-07T10:00:00''\<rparr>,
     parse_proposed = (\<lambda>_. Some (combine 1 10))\<rparr>"

definition second_env :: environment where
  "second_env = first_env\<lparr>now_ct_reading := combine 0 9,
      later_readings := (\<lambda>_. combine 0 9), wall_reading := combine 0 9, inserted_id := 9\<rparr>"

text \<open>The database after the engine has answered the dealer of thread 2.\<close>

definition booked_db :: database where
  "booked_db = snd (process_visit_scheduling first_env 2 ''+15550002'' empty_db)"

section \<open>Strings\<close>

text \<open>
  A Python \<^verbatim>\<open>str\<close> is modelled as a \<^typ>\<open>string\<close>, a list of 8-bit characters; the
  text messages and replies considered are ASCII. \<^verbatim>\<open>str.lower\<close> and \<^verbatim>\<open>str.upper\<close> then
  change the 26 letters only, \<^verbatim>\<open>\d\<close> matches \<^verbatim>\<open>0\<close> to \<^verbatim>\<open>9\<close>, and \<^verbatim>\<open>str.strip\<close>
  removes the ASCII whitespace characters (codes 9 to 13 and 28 to 32).
\<close>

definition lower_char :: "char \<Rightarrow> char" where
  "lower_char c =
     (case map_of (zip ''ABCDEFGHIJKLMNOPQRSTUVWXYZ'' ''abcdefghijklmnopqrstuvwxyz'') c of
        Some l \<Rightarrow> l
      | None \<Rightarrow> c)"

definition upper_char :: "char \<Rightarrow> char" where
  "upper_char c =
     (case map_of (zip ''abcdefghijklmnopqrstuvwxyz'' ''ABCDEFGHIJKLMNOPQRSTUVWXYZ'') c of
        Some u \<Rightarrow> u
      | None \<Rightarrow> c)"

definition lower :: "string \<Rightarrow> string" where
  "lower s = map lower_char s"

definition upper :: "string \<Rightarrow> string" where
  "upper s = map upper_char s"

definition is_digit :: "char \<Rightarrow> bool" where
  "is_digit c \<longleftrightarrow> c \<in> set ''0123456789''"

definition is_space :: "char \<Rightarrow> bool" where
  "is_space c \<longleftrightarrow> c \<in> set [CHR 0x09, CHR 0x0A, CHR 0x0B, CHR 0x0C, CHR 0x0D,
                          CHR 0x1C, CHR 0x1D, CHR 0x1E, CHR 0x1F, CHR '' '']"

definition strip :: "string \<Rightarrow> string" where
  "strip s = rev (dropWhile is_space (rev (dropWhile is_space s)))"

text \<open>
  The regular expressions of the classifier are plain text, three of them with one
  \<^verbatim>\<open>.*\<close> in the middle. \<open>match_lit p s\<close> matches the text \<open>p\<close> at the start of \<open>s\<close> and
  returns the rest; \<^verbatim>\<open>.\<close> does not match a newline.
\<close>

datatype regex = Literal string | DotStar string string

fun match_lit :: "string \<Rightarrow> string \<Rightarrow> string option" where
  "match_lit [] s = Some s"
| "match_lit (p # ps) [] = None"
| "match_lit (p # ps) (c # cs) = (if p = c then match_lit ps cs else None)"

fun search_lit :: "string \<Rightarrow> string \<Rightarrow> bool" where
  "search_lit p [] = (p = [])"
| "search_lit p (c # cs) = (match_lit p (c # cs) \<noteq> None \<or> search_lit p cs)"

fun dot_star_then :: "string \<Rightarrow> string \<Rightarrow> bool" where
  "dot_star_then b [] = (b = [])"
| "dot_star_then b (c # cs) =
     (match_lit b (c # cs) \<noteq> None \<or> (c \<noteq> CHR 0x0A \<and> dot_star_then b cs))"

fun search_dot_star :: "string \<Rightarrow> string \<Rightarrow> string \<Rightarrow> bool" where
  "search_dot_star a b [] = (a = [] \<and> b = [])"
| "search_dot_star a b (c # cs) =
     ((case match_lit a (c # cs) of Some rest \<Rightarrow> dot_star_then b rest | None \<Rightarrow> False)
      \<or> search_dot_star a b cs)"

text \<open>\<^verbatim>\<open>re.search(pattern, s)\<close> as a truth value.\<close>

fun re_search :: "regex \<Rightarrow> string \<Rightarrow> bool" where
  "re_search (Literal p) s = search_lit p s"
| "re_search (DotStar a b) s = search_dot_star a b s"

section \<open>The new-information classifier\<close>

definition acknowledgment_patterns :: "regex list" where
  "acknowledgment_patterns =
     [Literal ''sounds good'', Literal ''will get back'', Literal ''get back to you'',
      Literal ''will update you'', Literal ''update you as soon'', Literal ''will reach out'',
      Literal ''reach out as soon'', Literal ''will be in touch'',
      Literal ''be in touch as soon'', Literal ''working to get'',
      DotStar ''gathering'' ''information'', DotStar ''collecting'' ''information'',
      Literal ''looking into'', Literal ''will provide'', DotStar ''provide'' ''as soon'',
      Literal ''thank you for your patience'', Literal ''thank you for checking in'',
      Literal ''still working'', Literal ''still gathering'', Literal ''still collecting'']"

text \<open>
  The local \<^verbatim>\<open>is_just_acknowledgment\<close>: some pattern is found in the lower-cased
  message, \<^verbatim>\<open>re.search(r'\d+', message)\<close> finds nothing, and \<^verbatim>\<open>'$' not in message\<close>.
  The parameter \<^verbatim>\<open>message\<close> is written \<open>message_body\<close>, the name of the value the
  webhook passes.
\<close>

definition is_just_acknowledgment :: "string \<Rightarrow> bool" where
  "is_just_acknowledgment message_body \<longleftrightarrow>
     (let message_lower = lower message_body
      in list_ex (\<lambda>pattern. re_search pattern message_lower) acknowledgment_patterns
         \<and> \<not> list_ex is_digit message_body
         \<and> CHR ''$'' \<notin> set message_body)"

text \<open>
  What \<^verbatim>\<open>openai_client.chat.completions.create\<close> does: it raises, or it returns the
  contents of its choices (a content may be \<^verbatim>\<open>None\<close>). The prompt of the classifier is
  its two variable parts. \<open>known_info\<close> is the \<^verbatim>\<open>known_info_section\<close> that lines 530 to
  566 build from \<^verbatim>\<open>known_data\<close> (the empty text for \<^verbatim>\<open>None\<close>, which is what the webhook
  passes), and \<open>None\<close> when building it raises. The function returns its answer and
  the prompts it sent to the model.
\<close>

datatype completion = Raises | Choices "string option list"

record new_information_prompt =
  known_info_section :: string
  dealer_message :: string

definition message_contains_new_information ::
  "bool \<Rightarrow> (new_information_prompt \<Rightarrow> completion) \<Rightarrow> string \<Rightarrow> string option
     \<Rightarrow> bool \<times> new_information_prompt list" where
  "message_contains_new_information client_set create message_body known_info =
     (if \<not> client_set then (True, [])
      else if is_just_acknowledgment message_body then (False, [])
      else
        (case known_info of
           None \<Rightarrow> (True, [])
         | Some section \<Rightarrow>
             let prompt = \<lparr>known_info_section = section, dealer_message = message_body\<rparr>
             in (case create prompt of
                   Raises \<Rightarrow> (True, [prompt])
                 | Choices [] \<Rightarrow> (True, [prompt])
                 | Choices (None # _) \<Rightarrow> (True, [prompt])
                 | Choices (Some content # _) \<Rightarrow> (upper (strip content) = ''YES'', [prompt]))))"

section \<open>Modifying a visit\<close>

text \<open>
  Python looks a name up among the function's locals, then the module's globals, then
  the builtins. The names bound at module level of \<^verbatim>\<open>utils.py\<close> are its imports (lines
  1 to 19), its constants and its functions; \<^verbatim>\<open>ObjectId\<close> is imported inside the bodies
  of \<^verbatim>\<open>build_conversation_transcript\<close>, \<^verbatim>\<open>get_visit_availability\<close>, \<^verbatim>\<open>create_visit\<close>,
  \<^verbatim>\<open>get_scheduling_agent_response\<close> and \<^verbatim>\<open>process_visit_scheduling\<close> only, which
  binds it in those bodies. The builtins listed are those the module calls.
\<close>

definition utils_module_names :: "string list" where
  "utils_module_names =
     [''re'', ''os'', ''json'', ''asyncio'', ''datetime'', ''timedelta'', ''List'', ''Optional'',
      ''Dict'', ''Any'', ''OpenAI'', ''requests'', ''BeautifulSoup'', ''load_dotenv'',
      ''date_parser'', ''gettz'', ''async_playwright'', ''PLAYWRIGHT_AVAILABLE'',
      ''openai_client'', ''MTA_API_BASE_URL'', ''MTA_API_KEY'', ''MTA_PHONE_NUMBER'',
      ''MTA_LONGCODE_ID'', ''MTA_AUTO_REPLY_TEMPLATE_ID'', ''detect_and_extract_url'',
      ''scrape_and_extract_car_data'', ''_normalize_carfax_value'',
      ''build_conversation_transcript'', ''extract_car_listing_data'',
      ''dealer_says_will_get_back'', ''message_contains_new_information'',
      ''get_ai_response'', ''send_sms'', ''check_if_message_about_visit_scheduling'',
      ''get_visit_availability'', ''create_visit'', ''modify_visit'', ''delete_visit'',
      ''get_scheduling_agent_response'', ''process_visit_scheduling'',
      ''find_next_available_time'', ''propose_available_time'']"

definition builtin_names :: "string list" where
  "builtin_names =
     [''print'', ''isinstance'', ''str'', ''int'', ''float'', ''bool'', ''len'', ''abs'', ''any'',
      ''min'', ''range'', ''Exception'', ''ImportError'', ''ValueError'']"

datatype py_error = NameError string

definition lookup_name :: "string list \<Rightarrow> string \<Rightarrow> py_error + unit" where
  "lookup_name local_names name =
     (if name \<in> set local_names \<or> name \<in> set utils_module_names \<or> name \<in> set builtin_names
      then Inr () else Inl (NameError name))"

text \<open>
  \<^verbatim>\<open>update_one(query, update)\<close> of the classes of \<^verbatim>\<open>models.py\<close>, that is
  \<^verbatim>\<open>collection.update_one(query, {"$set": update})\<close>: the first document the query
  matches gets the keys of \<open>update\<close>; the count says whether it changed.
\<close>

definition set_keys :: "(string \<times> bson) list \<Rightarrow> (string \<rightharpoonup> bson) \<Rightarrow> (string \<rightharpoonup> bson)" where
  "set_keys update b = foldl (\<lambda>b (k, v). b(k \<mapsto> v)) b update"

fun update_one ::
  "(document \<Rightarrow> bool) \<Rightarrow> (string \<times> bson) list \<Rightarrow> document list \<Rightarrow> document list \<times> nat" where
  "update_one query update [] = ([], 0)"
| "update_one query update (d # ds) =
     (if query d
      then (d\<lparr>body := set_keys update (body d)\<rparr> # ds,
            if list_ex (\<lambda>(k, v). body d k \<noteq> Some v) update then 1 else 0)
      else (let (ds', modified_count) = update_one query update ds
            in (d # ds', modified_count)))"

text \<open>
  \<^verbatim>\<open>modify_visit\<close>. Its body binds its four parameters, \<^verbatim>\<open>Visit\<close> (the import of its
  first line) and \<^verbatim>\<open>update_data\<close> before line 859 evaluates \<^verbatim>\<open>ObjectId(visit_id)\<close>.
  \<open>wall\<close> is the reading of \<^verbatim>\<open>datetime.now()\<close>; a \<^verbatim>\<open>scheduled_time\<close> is given with its
  tzinfo. The values of \<^verbatim>\<open>update_data\<close> are written as the driver would store them.
\<close>

definition modify_visit ::
  "datetime \<Rightarrow> nat \<Rightarrow> (tzinfo option \<times> datetime) option \<Rightarrow> string option \<Rightarrow> string option
     \<Rightarrow> document list \<Rightarrow> py_error + (bool \<times> document list)" where
  "modify_visit wall visit_id scheduled_time notes status_arg visits_coll =
     (let update_data = [(''updatedAt'', BDate (encode_datetime None wall))];
          update_data = (case scheduled_time of
                           Some (tz, t) \<Rightarrow>
                             update_data @ [(''scheduledTime'', BDate (encode_datetime tz t))]
                         | None \<Rightarrow> update_data);
          update_data = (case notes of
                           Some n \<Rightarrow> update_data @ [(''notes'', BStr n)]
                         | None \<Rightarrow> update_data);
          update_data = (case status_arg of
                           Some s \<Rightarrow> if s \<noteq> [] then update_data @ [(''status'', BStr s)]
                                     else update_data
                         | None \<Rightarrow> update_data)
      in case lookup_name [''visit_id'', ''scheduled_time'', ''notes'', ''status'', ''Visit'',
                           ''update_data''] ''ObjectId'' of
           Inl e \<Rightarrow> Inl e
         | Inr _ \<Rightarrow>
             (let (visits', modified_count) =
                    update_one (\<lambda>d. oid d = visit_id) update_data visits_coll
              in Inr (modified_count > 0, visits')))"

section \<open>The webhook handler\<close>

text \<open>
  The payload of \<^verbatim>\<open>POST /api/webhook/sms\<close>; its field \<^verbatim>\<open>message\<close> is written
  \<open>webhook_message\<close>. The handler answers with a success body or raises an
  \<^verbatim>\<open>HTTPException\<close>.
\<close>

record SMSWebhook =
  fromNumber :: string
  toNumber :: "string option"
  webhook_message :: string
  replyId :: "string option"
  timestamp :: "string option"
  tags :: "(string \<rightharpoonup> bson) option"

datatype response = Success string | HTTPException nat string

text \<open>
  What one run of the handler can touch: the four collections, the ids the driver hands
  out, the module-level dict \<^verbatim>\<open>pending_responses\<close> (thread id to the reply of the
  pending task), and, to make the outside calls visible, the text messages sent, the
  prompts sent by the classifier, the transcripts given to the negotiation agent and
  the number of runs of the Scheduling Engine. One run is followed from its first to
  its last statement; runs for other requests are not interleaved with it.
\<close>

record world =
  store :: database
  next_oid :: nat
  pending_responses :: "nat \<rightharpoonup> string"
  sms_sent :: "(string \<times> string) list"
  classifier_calls :: "new_information_prompt list"
  agent_calls :: "string list"
  scheduling_runs :: nat

text \<open>
  The collaborators of the handler, as functions of what is passed to them:
  \<^item> \<open>now_reading\<close>: \<^verbatim>\<open>datetime.now()\<close>, which is naive;
  \<^item> \<open>fromisoformat\<close>: \<^verbatim>\<open>datetime.fromisoformat(s.replace('Z', '+00:00'))\<close>, less its
    offset when the text gives one, and \<open>None\<close> when it raises;
  \<^item> \<open>openai_client_set\<close> and \<open>chat_create\<close>: the client of the classifier;
  \<^item> \<open>get_ai_response\<close>: the negotiation agent on a transcript and the waiting flag,
    \<open>None\<close> when it raises;
  \<^item> \<open>send_sms\<close>: \<open>False\<close> when it raises after its retries;
  \<^item> \<open>scheduling_environment\<close>: what the Scheduling Engine reads from outside;
  \<^item> \<open>reply_text\<close>: the text of a reply of the Scheduling Engine;
  \<^item> \<open>check_if_message_about_visit_scheduling\<close>: the model's or the keywords' verdict;
  \<^item> \<open>extract_car_listing_data\<close>: the extracted listing, \<open>None\<close> when it raises.
\<close>

record services =
  now_reading :: datetime
  fromisoformat :: "string \<Rightarrow> datetime option"
  openai_client_set :: bool
  chat_create :: "new_information_prompt \<Rightarrow> completion"
  get_ai_response :: "string \<Rightarrow> bool \<Rightarrow> string option"
  send_sms :: "string \<Rightarrow> string \<Rightarrow> bool"
  scheduling_environment :: environment
  reply_text :: "reply \<Rightarrow> string"
  check_if_message_about_visit_scheduling :: "string \<Rightarrow> bool"
  extract_car_listing_data :: "string \<Rightarrow> (string \<times> bson) list option"

definition MTA_PHONE_NUMBER :: string where
  "MTA_PHONE_NUMBER = ''+18776647380''"

text \<open>Python's truth value of \<^verbatim>\<open>d.get(key)\<close>.\<close>

fun bson_truthy :: "bson option \<Rightarrow> bool" where
  "bson_truthy None = False"
| "bson_truthy (Some (BBool b)) = b"
| "bson_truthy (Some (BStr s)) = (s \<noteq> [])"
| "bson_truthy (Some (BInt n)) = (n \<noteq> 0)"
| "bson_truthy (Some (BDate t)) = True"
| "bson_truthy (Some (BOid i)) = True"
| "bson_truthy (Some BNull) = False"

fun find_one :: "(document \<Rightarrow> bool) \<Rightarrow> document list \<Rightarrow> document option" where
  "find_one query [] = None"
| "find_one query (d # ds) = (if query d then Some d else find_one query ds)"

definition insert_one :: "nat \<Rightarrow> (string \<times> bson) list \<Rightarrow> document list \<Rightarrow> document list" where
  "insert_one new_id data docs = docs @ [\<lparr>oid = new_id, body = set_keys data Map.empty\<rparr>]"

text \<open>\<^verbatim>\<open>Thread.update_one({"_id": thread["_id"]}, update)\<close>\<close>

definition update_thread :: "nat \<Rightarrow> (string \<times> bson) list \<Rightarrow> world \<Rightarrow> world" where
  "update_thread thread_id update w =
     w\<lparr>store := (store w)\<lparr>threads :=
          fst (update_one (\<lambda>d. oid d = thread_id) update (threads (store w)))\<rparr>\<rparr>"

text \<open>\<^verbatim>\<open>Message.create\<close> of an outbound message.\<close>

definition save_outbound :: "services \<Rightarrow> nat \<Rightarrow> string \<Rightarrow> string \<Rightarrow> world \<Rightarrow> world" where
  "save_outbound sv thread_id sender_phone text w =
     w\<lparr>store := (store w)\<lparr>messages :=
          insert_one (next_oid w)
            [(''threadId'', BOid thread_id), (''from'', BStr MTA_PHONE_NUMBER),
             (''to'', BStr sender_phone), (''body'', BStr text),
             (''direction'', BStr ''outbound''),
             (''timestamp'', BDate (encode_datetime None (now_reading sv)))]
            (messages (store w))\<rparr>,
       next_oid := Suc (next_oid w)\<rparr>"

text \<open>
  \<^verbatim>\<open>build_conversation_transcript\<close>: the messages of the thread by ascending timestamp,
  one line each. \<open>None\<close> stands for the \<^verbatim>\<open>KeyError\<close> of a message without
  \<^verbatim>\<open>direction\<close> or \<^verbatim>\<open>body\<close>; the bodies the handler writes are strings.
\<close>

fun transcript_lines :: "document list \<Rightarrow> string list option" where
  "transcript_lines [] = Some []"
| "transcript_lines (msg # msgs) =
     (case (body msg ''direction'', body msg ''body'') of
        (Some direction, Some (BStr text)) \<Rightarrow>
          (case transcript_lines msgs of
             Some lines \<Rightarrow>
               Some (((if direction = BStr ''inbound'' then ''Dealer'' else ''You'') @ '': '' @ text)
                     # lines)
           | None \<Rightarrow> None)
      | _ \<Rightarrow> None)"

fun join_lines :: "string list \<Rightarrow> string" where
  "join_lines [] = []"
| "join_lines [l] = l"
| "join_lines (l # ls) = l @ [CHR 0x0A] @ join_lines ls"

definition build_conversation_transcript :: "nat \<Rightarrow> document list \<Rightarrow> string option" where
  "build_conversation_transcript thread_id msgs =
     map_option join_lines
       (transcript_lines
          (sort_key (\<lambda>m. case body m ''timestamp'' of Some (BDate t) \<Rightarrow> t | _ \<Rightarrow> 0)
             (filter (\<lambda>m. body m ''threadId'' = Some (BOid thread_id)) msgs)))"

text \<open>\<^verbatim>\<open>s.replace(marker, "")\<close> for a marker that is not empty.\<close>

fun remove_marker :: "string \<Rightarrow> nat \<Rightarrow> string \<Rightarrow> string" where
  "remove_marker marker skip [] = []"
| "remove_marker marker (Suc skip) (c # cs) = remove_marker marker skip cs"
| "remove_marker marker 0 (c # cs) =
     (if match_lit marker (c # cs) \<noteq> None \<and> marker \<noteq> []
      then remove_marker marker (length marker - 1) cs
      else c # remove_marker marker 0 cs)"

text \<open>
  One run of the Scheduling Engine from the handler, on the handler's database: the
  engine's result and the world after it.
\<close>

definition run_scheduling ::
  "services \<Rightarrow> nat \<Rightarrow> string \<Rightarrow> world \<Rightarrow> sched_result option \<times> world" where
  "run_scheduling sv thread_id sender_phone w =
     (let (scheduling_result, db') =
            process_visit_scheduling ((scheduling_environment sv)\<lparr>inserted_id := next_oid w\<rparr>)
              thread_id sender_phone (store w)
      in (scheduling_result,
          w\<lparr>store := db', next_oid := Suc (next_oid w),
            scheduling_runs := Suc (scheduling_runs w)\<rparr>))"

text \<open>
  After a visit was scheduled: send the confirmation and save it (a failing send is
  only printed), then mark the thread complete.
\<close>

definition confirm_visit :: "services \<Rightarrow> nat \<Rightarrow> string \<Rightarrow> string \<Rightarrow> world \<Rightarrow> world" where
  "confirm_visit sv thread_id sender_phone ai_response w =
     (let w = (if send_sms sv sender_phone ai_response
               then save_outbound sv thread_id sender_phone ai_response
                      (w\<lparr>sms_sent := sms_sent w @ [(sender_phone, ai_response)]\<rparr>)
               else w)
      in update_thread thread_id
           [(''conversationComplete'', BBool True), (''lastMessage'', BStr ai_response),
            (''lastMessageTime'', BDate (encode_datetime None (now_reading sv)))] w)"

text \<open>
  The extraction block of the \<^verbatim>\<open>#SCHEDULE#\<close> branch: update the listing of the thread
  or create one; a failing extraction is only printed.
\<close>

definition save_car_listing :: "services \<Rightarrow> nat \<Rightarrow> string \<Rightarrow> string \<Rightarrow> world \<Rightarrow> world" where
  "save_car_listing sv thread_id sender_phone transcript w =
     (case extract_car_listing_data sv transcript of
        None \<Rightarrow> w
      | Some extracted_data \<Rightarrow>
          (case find_one (\<lambda>d. body d ''threadId'' = Some (BOid thread_id))
                  (carlistings (store w)) of
             Some car_listing \<Rightarrow>
               w\<lparr>store := (store w)\<lparr>carlistings :=
                    fst (update_one (\<lambda>d. body d ''threadId'' = Some (BOid thread_id))
                           (extracted_data @ [(''conversationComplete'', BBool True)])
                           (carlistings (store w)))\<rparr>\<rparr>
           | None \<Rightarrow>
               w\<lparr>store := (store w)\<lparr>carlistings :=
                    insert_one (next_oid w)
                      ([(''threadId'', BOid thread_id), (''phoneNumber'', BStr sender_phone)]
                       @ extracted_data
                       @ [(''conversationComplete'', BBool True),
                          (''extractedAt'', BDate (encode_datetime None (now_reading sv)))])
                      (carlistings (store w))\<rparr>,
                 next_oid := Suc (next_oid w)\<rparr>))"

text \<open>
  The extraction block of the branch for a dealer who asks about a visit: only an
  existing listing that is not complete is updated.
\<close>

definition update_car_listing :: "services \<Rightarrow> nat \<Rightarrow> document \<Rightarrow> string \<Rightarrow> world \<Rightarrow> world" where
  "update_car_listing sv thread_id car_listing transcript w =
     (if \<not> bson_truthy (body car_listing ''conversationComplete'') then
        (case extract_car_listing_data sv transcript of
           None \<Rightarrow> w
         | Some extracted_data \<Rightarrow>
             w\<lparr>store := (store w)\<lparr>carlistings :=
                  fst (update_one (\<lambda>d. body d ''threadId'' = Some (BOid thread_id))
                         (extracted_data @ [(''conversationComplete'', BBool True)])
                         (carlistings (store w)))\<rparr>\<rparr>)
      else w)"

text \<open>
  Lines 278 to 538: the negotiation agent and what follows from its reply. Whatever
  raises inside is caught and printed, and the handler answers "Message processed".
  The deferred send of an ordinary reply is entered in \<^verbatim>\<open>pending_responses\<close>; the task
  itself runs after the handler has returned.
\<close>

definition generate_reply ::
  "services \<Rightarrow> document \<Rightarrow> string \<Rightarrow> string \<Rightarrow> world \<Rightarrow> response \<times> world" where
  "generate_reply sv thread sender_phone message_body w =
     (let thread_id = oid thread;
          processed = Success ''Message processed''
      in case build_conversation_transcript thread_id (messages (store w)) of
           None \<Rightarrow> (processed, w)
         | Some transcript \<Rightarrow>
             (let w = w\<lparr>agent_calls := agent_calls w @ [transcript]\<rparr>
              in case get_ai_response sv transcript
                        (bson_truthy (body thread ''waitingForDealerResponse'')) of
                   None \<Rightarrow> (processed, w)
                 | Some ai_response \<Rightarrow>
                     if search_lit ''# WAITING #'' ai_response then
                       (let stripped = strip (remove_marker ''# WAITING #'' 0 ai_response);
                            thank_you_message = (if stripped \<noteq> [] then stripped
                                                 else ''Thank you'');
                            w = (if send_sms sv sender_phone thank_you_message
                                 then update_thread thread_id
                                        [(''waitingForDealerResponse'', BBool True),
                                         (''lastMessage'', BStr thank_you_message),
                                         (''lastMessageTime'',
                                            BDate (encode_datetime None (now_reading sv)))]
                                        (save_outbound sv thread_id sender_phone
                                           thank_you_message
                                           (w\<lparr>sms_sent := sms_sent w
                                                @ [(sender_phone, thank_you_message)]\<rparr>))
                                 else w)
                        in (Success (''Entered waiting state, no further responses ''
                                     @ ''until dealer provides new info''), w))
                     else if search_lit ''#SCHEDULE#'' ai_response then
                       (let (scheduling_result, w) = run_scheduling sv thread_id sender_phone w
                        in case scheduling_result of
                             None \<Rightarrow> (processed, w)
                           | Some r \<Rightarrow>
                               if visit_scheduled r
                               then (Success ''Visit scheduled, conversation complete'',
                                     save_car_listing sv thread_id sender_phone transcript
                                       (confirm_visit sv thread_id sender_phone
                                          (reply_text sv (message r)) w))
                               else (processed, w))
                     else if check_if_message_about_visit_scheduling sv message_body then
                       (case find_one (\<lambda>d. body d ''threadId'' = Some (BOid thread_id))
                               (carlistings (store w)) of
                          None \<Rightarrow> (processed, w)
                        | Some car_listing \<Rightarrow>
                            if bson_truthy (body car_listing ''make'')
                               \<and> bson_truthy (body car_listing ''model'')
                               \<and> bson_truthy (body car_listing ''year'')
                            then
                              (let (scheduling_result, w) =
                                     run_scheduling sv thread_id sender_phone w
                               in case scheduling_result of
                                    None \<Rightarrow> (processed, w)
                                  | Some r \<Rightarrow>
                                      if visit_scheduled r
                                      then (Success ''Visit scheduled, conversation complete'',
                                            update_car_listing sv thread_id car_listing
                                              transcript
                                              (confirm_visit sv thread_id sender_phone
                                                 (reply_text sv (message r)) w))
                                      else (processed, w))
                            else (processed, w))
                     else (processed,
                           w\<lparr>pending_responses :=
                               (pending_responses w)(thread_id \<mapsto> ai_response)\<rparr>)))"

text \<open>
  Lines 254 to 276: a waiting thread is resumed only by a message with new
  information; then a pending reply of the thread is cancelled.
\<close>

definition respond ::
  "services \<Rightarrow> document \<Rightarrow> string \<Rightarrow> string \<Rightarrow> world \<Rightarrow> response \<times> world" where
  "respond sv thread sender_phone message_body w =
     (let thread_id = oid thread;
          cancel = (\<lambda>w. w\<lparr>pending_responses := (pending_responses w)(thread_id := None)\<rparr>)
      in if bson_truthy (body thread ''waitingForDealerResponse'') then
           (let (has_new_info, prompts) =
                  message_contains_new_information (openai_client_set sv) (chat_create sv)
                    message_body (Some '''');
                w = w\<lparr>classifier_calls := classifier_calls w @ prompts\<rparr>
            in if \<not> has_new_info
               then (Success ''Waiting for dealer response, no new information in message'', w)
               else generate_reply sv thread sender_phone message_body
                      (cancel (update_thread thread_id
                                 [(''waitingForDealerResponse'', BBool False)] w)))
         else generate_reply sv thread sender_phone message_body (cancel w))"

text \<open>
  The timestamp of the thread and of the stored message: the payload's, when it is
  given and parses, and the clock otherwise.
\<close>

definition webhook_time :: "services \<Rightarrow> SMSWebhook \<Rightarrow> datetime" where
  "webhook_time sv webhook =
     (case timestamp webhook of
        None \<Rightarrow> now_reading sv
      | Some ts \<Rightarrow>
          if ts = [] then now_reading sv
          else (case fromisoformat sv ts of Some t \<Rightarrow> t | None \<Rightarrow> now_reading sv))"

text \<open>Lines 191 to 228: find or create the thread; \<open>None\<close> when a statement raises.\<close>

definition load_thread :: "services \<Rightarrow> SMSWebhook \<Rightarrow> world \<Rightarrow> (document \<times> world) option" where
  "load_thread sv webhook w =
     (let sender_phone = fromNumber webhook;
          message_body = webhook_message webhook;
          time = webhook_time sv webhook
      in case find_one (\<lambda>d. body d ''phoneNumber'' = Some (BStr sender_phone))
                (threads (store w)) of
           None \<Rightarrow>
             (let w' = w\<lparr>store := (store w)\<lparr>threads :=
                           insert_one (next_oid w)
                             [(''phoneNumber'', BStr sender_phone),
                              (''lastMessage'', BStr message_body),
                              (''lastMessageTime'', BDate (encode_datetime None time)),
                              (''unreadCount'', BInt 1),
                              (''conversationComplete'', BBool False),
                              (''waitingForDealerResponse'', BBool False)]
                             (threads (store w))\<rparr>,
                        next_oid := Suc (next_oid w)\<rparr>
              in map_option (\<lambda>thread. (thread, w'))
                   (find_one (\<lambda>d. oid d = next_oid w) (threads (store w'))))
         | Some thread \<Rightarrow>
             (case (case body thread ''unreadCount'' of
                      None \<Rightarrow> Some 1
                    | Some (BInt n) \<Rightarrow> Some (n + 1)
                    | Some (BBool b) \<Rightarrow> Some (if b then 2 else 1)
                    | Some _ \<Rightarrow> None) of
                None \<Rightarrow> None
              | Some unread \<Rightarrow>
                  (let w' = update_thread (oid thread)
                              [(''lastMessage'', BStr message_body),
                               (''lastMessageTime'', BDate (encode_datetime None time)),
                               (''unreadCount'', BInt unread)] w
                   in map_option (\<lambda>thread. (thread, w'))
                        (find_one (\<lambda>d. oid d = oid thread) (threads (store w'))))))"

text \<open>Lines 230 to 247: \<^verbatim>\<open>Message.create\<close> of the inbound message.\<close>

definition save_inbound :: "services \<Rightarrow> SMSWebhook \<Rightarrow> document \<Rightarrow> world \<Rightarrow> world" where
  "save_inbound sv webhook thread w =
     w\<lparr>store := (store w)\<lparr>messages :=
          insert_one (next_oid w)
            [(''threadId'', BOid (oid thread)),
             (''from'', BStr (fromNumber webhook)),
             (''to'', BStr (case toNumber webhook of
                              None \<Rightarrow> ''unknown''
                            | Some t \<Rightarrow> if t = [] then ''unknown'' else t)),
             (''body'', BStr (webhook_message webhook)),
             (''direction'', BStr ''inbound''),
             (''timestamp'', BDate (encode_datetime None (webhook_time sv webhook))),
             (''externalMessageId'',
                (case replyId webhook of
                   Some r \<Rightarrow> if r \<noteq> [] then BStr r
                             else (case tags webhook of
                                     None \<Rightarrow> BNull
                                   | Some t \<Rightarrow> (case t ''messageId'' of None \<Rightarrow> BNull
                                                | Some v \<Rightarrow> v))
                 | None \<Rightarrow> (case tags webhook of
                              None \<Rightarrow> BNull
                            | Some t \<Rightarrow> (case t ''messageId'' of None \<Rightarrow> BNull
                                         | Some v \<Rightarrow> v))))]
            (messages (store w))\<rparr>,
       next_oid := Suc (next_oid w)\<rparr>"

text \<open>
  \<^verbatim>\<open>sms_webhook\<close>. The \<^verbatim>\<open>HTTPException\<close> of a missing field is raised inside the
  \<^verbatim>\<open>try\<close> whose handler catches every \<^verbatim>\<open>Exception\<close> and raises the one with status 500.
  The opt-in pattern is searched ignoring case.
\<close>

definition sms_webhook :: "services \<Rightarrow> SMSWebhook \<Rightarrow> world \<Rightarrow> response \<times> world" where
  "sms_webhook sv webhook w =
     (let sender_phone = fromNumber webhook;
          message_body = webhook_message webhook;
          error = HTTPException 500 ''Error processing message''
      in if sender_phone = [] \<or> message_body = [] then (error, w)
         else if search_lit (lower ''Thanks for opting in to receive messages from us!'')
                   (lower message_body)
         then (Success ''Opt-in message ignored'', w)
         else
           (case load_thread sv webhook w of
              None \<Rightarrow> (error, w)
            | Some (thread, w) \<Rightarrow>
                (let w = save_inbound sv webhook thread w
                 in if bson_truthy (body thread ''conversationComplete'')
                    then (Success ''Conversation complete, no response sent'', w)
                    else respond sv thread sender_phone message_body w)))"

section \<open>A scenario: a message on a finished conversation\<close>

text \<open>
  The thread of the dealer is complete; every collaborator would answer if it were
  asked.
\<close>

definition example_services :: services where
  "example_services = \<lparr>now_reading = 5, fromisoformat = (\<lambda>_. None), openai_client_set = True,
     chat_create = (\<lambda>_. Choices [Some ''YES'']),
     get_ai_response = (\<lambda>_ _. Some ''What is the mileage?''),
     send_sms = (\<lambda>_ _. True), scheduling_environment = scenario_env,
     reply_text = (\<lambda>_. ''See you then''),
     check_if_message_about_visit_scheduling = (\<lambda>_. False),
     extract_car_listing_data = (\<lambda>_. None)\<rparr>"

definition example_webhook :: SMSWebhook where
  "example_webhook = \<lparr>fromNumber = ''+15550001'', toNumber = None,
     webhook_message = ''Is Friday still fine?'', replyId = None, timestamp = None,
     tags = None\<rparr>"

definition complete_thread :: document where
  "complete_thread = \<lparr>oid = 1, body = [''phoneNumber'' \<mapsto> BStr ''+15550001'',
     ''lastMessage'' \<mapsto> BStr ''See you then'', ''lastMessageTime'' \<mapsto> BDate 3,
     ''unreadCount'' \<mapsto> BInt 0, ''conversationComplete'' \<mapsto> BBool True,
     ''waitingForDealerResponse'' \<mapsto> BBool False]\<rparr>"

definition complete_world :: world where
  "complete_world = \<lparr>store = \<lparr>threads = [complete_thread], messages = [], carlistings = [],
       visits = []\<rparr>,
     next_oid = 2, pending_responses = Map.empty, sms_sent = [], classifier_calls = [],
     agent_calls = [], scheduling_runs = 0\<rparr>"

section \<open>Properties of the conflict test\<close>

lemma conflict_iff:
  "conflict t vs \<longleftrightarrow> (\<exists>v \<in> set vs. less_than_1_hour_apart t (scheduledTime v))"
  by (induction vs) (auto simp add: visit_time_def)



section \<open>The availability context\<close>

lemma get_visit_availability_threadId:
  "get_visit_availability tz s e (map (\<lambda>v. v\<lparr>body := (body v)(''threadId'' := th v)\<rparr>) vs)
     = get_visit_availability tz s e vs"
proof (induction vs)
  case Nil
  show ?case by simp
next
  case (Cons v vs)
  show ?case
    using Cons.IH by (cases "body v ''scheduledTime''") (simp_all split: bson.split)
qed

lemma get_visit_availability_set:
  "x \<in> set (get_visit_availability tz s e vs) \<longleftrightarrow>
     (\<exists>v \<in> set vs. \<exists>t. body v ''scheduledTime'' = Some (BDate t)
        \<and> encode_datetime (Some tz) s \<le> t \<and> t \<le> encode_datetime (Some tz) e
        \<and> body v ''status'' \<noteq> Some (BStr ''cancelled'')
        \<and> x = \<lparr>visitId = oid v, scheduledTime = t,
                 dealerPhoneNumber = body v ''dealerPhoneNumber'',
                 status = (case body v ''status'' of None \<Rightarrow> BStr ''scheduled'' | Some y \<Rightarrow> y)\<rparr>)"
proof (induction vs)
  case Nil
  show ?case by simp
next
  case (Cons v vs)
  show ?case
  proof (cases "body v ''scheduledTime''")
    case None
    then show ?thesis by (simp add: Cons.IH)
  next
    case (Some b)
    then show ?thesis
      by (cases b) (auto simp add: Cons.IH)
  qed
qed

lemma propose_available_time_fst_visits:
  "fst (propose_available_time w n now e ev tz th ph c (db\<lparr>visits := vs'\<rparr>))
     = fst (propose_available_time w n now e ev tz th ph c db)"
  by (simp add: propose_available_time_def Let_def split: option.split)

text \<open>
  Claim C2, as the code has it. The availability context \<^verbatim>\<open>process_visit_scheduling\<close>
  loads holds one entry for each stored visit, of whatever thread, whose status is not
  \<^verbatim>\<open>cancelled\<close> and whose \<^verbatim>\<open>scheduledTime\<close> is a date in the window: not before the
  instant of \<^verbatim>\<open>now_ct\<close> and not after the instant of \<^verbatim>\<open>now_ct + timedelta(days=2)\<close>,
  both in whole milliseconds. The instant of a Central-Time reading is the reading
  less its UTC offset, and the stored date is written by its UTC reading \<open>t\<close>, which
  is also what the entry holds. Giving the stored visits other thread ids changes
  neither the context nor the engine's reply.
\<close>

theorem C2_availability_context_any_thread:
  fixes ct_tz :: tzinfo and now_ct :: datetime
  defines "end_date \<equiv> now_ct + 2 * 86400 * 1000000"
  defines "window_start \<equiv> now_ct - ct_tz now_ct"
  defines "window_end \<equiv> end_date - ct_tz end_date"
  shows "(x \<in> set (get_visit_availability ct_tz now_ct (now_ct + timedelta_days 2) vs) \<longleftrightarrow>
      (\<exists>v \<in> set vs. \<exists>t. body v ''scheduledTime'' = Some (BDate t)
         \<and> window_start - window_start mod 1000 \<le> t
         \<and> t \<le> window_end - window_end mod 1000
         \<and> body v ''status'' \<noteq> Some (BStr ''cancelled'')
         \<and> x = \<lparr>visitId = oid v, scheduledTime = t,
                  dealerPhoneNumber = body v ''dealerPhoneNumber'',
                  status = (case body v ''status'' of None \<Rightarrow> BStr ''scheduled''
                            | Some y \<Rightarrow> y)\<rparr>))
   \<and> get_visit_availability ct_tz now_ct (now_ct + timedelta_days 2)
        (map (\<lambda>v. v\<lparr>body := (body v)(''threadId'' := th v)\<rparr>) vs)
      = get_visit_availability ct_tz now_ct (now_ct + timedelta_days 2) vs
   \<and> fst (process_visit_scheduling env thread_id phone
        (db\<lparr>visits := map (\<lambda>v. v\<lparr>body := (body v)(''threadId'' := th v)\<rparr>) (visits db)\<rparr>))
      = fst (process_visit_scheduling env thread_id phone db)"
proof (intro conjI)
  have e: "now_ct + timedelta_days 2 = end_date"
    by (simp add: end_date_def timedelta_days_def us_per_second_def)
  show "x \<in> set (get_visit_availability ct_tz now_ct (now_ct + timedelta_days 2) vs) \<longleftrightarrow>
      (\<exists>v \<in> set vs. \<exists>t. body v ''scheduledTime'' = Some (BDate t)
         \<and> window_start - window_start mod 1000 \<le> t
         \<and> t \<le> window_end - window_end mod 1000
         \<and> body v ''status'' \<noteq> Some (BStr ''cancelled'')
         \<and> x = \<lparr>visitId = oid v, scheduledTime = t,
                  dealerPhoneNumber = body v ''dealerPhoneNumber'',
                  status = (case body v ''status'' of None \<Rightarrow> BStr ''scheduled''
                            | Some y \<Rightarrow> y)\<rparr>)"
    unfolding get_visit_availability_set e
    by (simp add: encode_datetime_def Let_def window_start_def window_end_def)
  show "get_visit_availability ct_tz now_ct (now_ct + timedelta_days 2)
        (map (\<lambda>v. v\<lparr>body := (body v)(''threadId'' := th v)\<rparr>) vs)
      = get_visit_availability ct_tz now_ct (now_ct + timedelta_days 2) vs"
    by (rule get_visit_availability_threadId)
  show "fst (process_visit_scheduling env thread_id phone
        (db\<lparr>visits := map (\<lambda>v. v\<lparr>body := (body v)(''threadId'' := th v)\<rparr>) (visits db)\<rparr>))
      = fst (process_visit_scheduling env thread_id phone db)"
    by (simp add: process_visit_scheduling_def Let_def case_prod_unfold
        propose_available_time_fst_visits get_visit_availability_threadId
        split: option.split)
qed

theorem C2_availability_witness:
  "map visitId (get_visit_availability central_daylight 0 (0 + timedelta_days 2)
      (visits scenario_db)) = [7]
   \<and> fst (process_visit_scheduling scenario_env 1 ''+15550001''
        (scenario_db\<lparr>visits := map (\<lambda>v. v\<lparr>body := (body v)(''threadId'' := Some (BOid 1))\<rparr>)
           (visits scenario_db)\<rparr>))
      = fst (process_visit_scheduling scenario_env 1 ''+15550001'' scenario_db)"
  using C2_availability_context_any_thread [of _ central_daylight 0 "visits scenario_db"
      "\<lambda>_. Some (BOid 1)" scenario_env 1 "''+15550001''" scenario_db]
  by (simp add: scenario_db_def central_daylight_def encode_datetime_def combine_def
      timedelta_days_def timedelta_hours_def us_per_second_def)

text \<open>
  Claim C2 as stated fails: in the scenario the context loaded for thread 1 holds the
  visit of thread 2, the context of the specification's words is empty, and the engine
  moves the visit of thread 1 by an hour because of the visit of thread 2.
\<close>

theorem C2_other_thread_counterexample:
  "map visitId (get_visit_availability (gettz_America_Chicago scenario_env)
        (now_ct_reading scenario_env) (now_ct_reading scenario_env + timedelta_days 2)
        (visits scenario_db)) = [7]
   \<and> map (\<lambda>v. body v ''threadId'') (visits scenario_db) = [Some (BOid 2)]
   \<and> thread_availability_context (gettz_America_Chicago scenario_env) 1
        (now_ct_reading scenario_env) (visits scenario_db) = []
   \<and> fst (process_visit_scheduling scenario_env 1 ''+15550001'' scenario_db)
      = Some \<lparr>message = NotExact (combine 1 9), visit_scheduled = True\<rparr>"
  by (simp add: scenario_db_def scenario_env_def thread_availability_context_def
      process_visit_scheduling_def find_next_available_time_def Let_def
      central_daylight_def encode_datetime_def visit_time_def
      combine_def timedelta_days_def timedelta_hours_def timedelta_minutes_def
      us_per_second_def less_than_1_hour_apart_def time_diff_def)

section \<open>The scans of the Scheduling Engine\<close>



lemma try_hours_Some:
  "try_hours d hours now e ev = Some t \<Longrightarrow>
     now \<le> t \<and> t \<le> e \<and> \<not> conflict t ev \<and> (\<exists>h \<in> set hours. t = combine d h)"
  by (induction hours) (auto simp add: Let_def split: if_splits)



lemma scan_days_Some:
  "scan_days c eo hours now e ev = Some t \<Longrightarrow>
     now \<le> t \<and> t \<le> e \<and> \<not> conflict t ev
     \<and> (\<exists>d h. c \<le> d \<and> d \<le> eo \<and> h \<in> set hours \<and> t = combine d h)"
proof (induction c eo hours now e ev rule: scan_days.induct)
  case (1 c eo hours now e ev)
  show ?case
  proof (cases "try_hours c hours now e ev")
    case None
    from "1.prems" have le: "c \<le> eo"
      by (simp add: scan_days.simps [of c] split: if_splits)
    from "1.prems" le None have rec: "scan_days (c + 1) eo hours now e ev = Some t"
      by (simp add: scan_days.simps [of c])
    from "1.IH" [OF le None rec] obtain d h where
      "now \<le> t" "t \<le> e" "\<not> conflict t ev" "c + 1 \<le> d" "d \<le> eo" "h \<in> set hours"
      "t = combine d h" by blast
    moreover from this have "c \<le> d" by simp
    ultimately show ?thesis by blast
  next
    case (Some u)
    from "1.prems" have le: "c \<le> eo"
      by (simp add: scan_days.simps [of c] split: if_splits)
    from "1.prems" le Some have "u = t"
      by (simp add: scan_days.simps [of c])
    with try_hours_Some [of c hours now e ev t] Some le show ?thesis by blast
  qed
qed



lemma time_slots_loop_free:
  "t \<in> set (time_slots_loop clock i offs p ev e) \<Longrightarrow> \<not> conflict t ev"
  by (induction offs arbitrary: i) (auto simp add: Let_def split: if_splits)

lemma find_next_available_time_free:
  assumes "find_next_available_time clock p ev e = Some a"
  shows "\<not> conflict a ev"
proof -
  define slots where "slots = time_slots_loop clock 0 [- 30, 30, - 60, 60, - 90, 90] p ev e"
  from assms have "a \<in> set (sort_key (\<lambda>t. time_diff t p) slots)"
    unfolding find_next_available_time_def Let_def slots_def [symmetric]
    by (cases "sort_key (\<lambda>t. time_diff t p) slots") simp_all
  then have "a \<in> set slots" by simp
  then show ?thesis unfolding slots_def by (rule time_slots_loop_free)
qed




lemma create_visit_snd:
  "\<exists>b. snd (create_visit tz w n th t ph c None vs) = vs @ [\<lparr>oid = n, body = b\<rparr>]
     \<and> b ''scheduledTime'' = Some (BDate (encode_datetime (Some tz) t))
     \<and> b ''status'' = Some (BStr ''scheduled'')
     \<and> b ''threadId'' = Some (BOid th)"
  by (cases c) (simp_all add: create_visit_def Let_def)

lemma propose_available_time_cases:
  assumes "propose_available_time w n now e ev tz th ph c db = (r, db')"
  shows "(r = \<lparr>message = BookedUp, visit_scheduled = False\<rparr> \<and> db' = db)
    \<or> (\<exists>t. now \<le> t \<and> t \<le> e \<and> \<not> conflict t ev \<and> visit_scheduled r
          \<and> (message r = ComeBy t \<or> message r = HowAbout t)
          \<and> db' = db\<lparr>visits := snd (create_visit tz w n th t ph c None (visits db))\<rparr>)"
proof -
  define c0 where "c0 = date_of (if hour_of now < 10 then combine (date_of now) 10
                                  else now + timedelta_days 1)"
  show ?thesis
  proof (cases "scan_days c0 (date_of e) [10, 14, 16] now e ev")
    case (Some t)
    from scan_days_Some [OF Some] have "now \<le> t \<and> t \<le> e \<and> \<not> conflict t ev" by blast
    moreover from assms Some have "r = \<lparr>message = ComeBy t, visit_scheduled = True\<rparr>"
      and "db' = db\<lparr>visits := snd (create_visit tz w n th t ph c None (visits db))\<rparr>"
      by (simp_all add: propose_available_time_def Let_def c0_def)
    ultimately show ?thesis by auto
  next
    case None
    show ?thesis
    proof (cases "scan_days c0 (date_of e) [9..17] now e ev")
      case (Some t)
      from scan_days_Some [OF Some] have "now \<le> t \<and> t \<le> e \<and> \<not> conflict t ev" by blast
      moreover from assms None Some have "r = \<lparr>message = HowAbout t, visit_scheduled = True\<rparr>"
        and "db' = db\<lparr>visits := snd (create_visit tz w n th t ph c None (visits db))\<rparr>"
        by (simp_all add: propose_available_time_def Let_def c0_def)
      ultimately show ?thesis by auto
    next
      case None2: None
      from assms None None2 show ?thesis
        by (simp add: propose_available_time_def Let_def c0_def)
    qed
  qed
qed

lemma process_visit_scheduling_unfold:
  "process_visit_scheduling env th ph db =
     (let tz = gettz_America_Chicago env; now = now_ct_reading env;
          e = now + timedelta_days 2;
          ev = get_visit_availability tz now e (visits db);
          c = find_car_listing_id th (carlistings db);
          P = propose_available_time (wall_reading env) (inserted_id env) now e ev tz th ph c
                db;
          book = (\<lambda>t. db\<lparr>visits := snd (create_visit tz (wall_reading env) (inserted_id env)
                                           th t ph c None (visits db))\<rparr>)
      in if \<not> client_configured env then (None, db)
         else case model_reply env of
           None \<Rightarrow> (Some \<lparr>message = ReadyToSchedule, visit_scheduled = False\<rparr>, db)
         | Some data \<Rightarrow>
             if truthy (dealer_proposed_date data) \<and> truthy (dealer_proposed_time data) then
               (case parse_proposed env data of
                  None \<Rightarrow> (Some (fst P), snd P)
                | Some p \<Rightarrow>
                    if p < now then (Some (fst P), snd P)
                    else if conflict p ev then
                      (case find_next_available_time (later_readings env) p ev e of
                         Some a \<Rightarrow> (Some \<lparr>message = NotExact a, visit_scheduled = True\<rparr>, book a)
                       | None \<Rightarrow> (Some (fst P), snd P))
                    else (Some \<lparr>message = Perfect p, visit_scheduled = True\<rparr>, book p))
             else (Some (fst P), snd P))"
  by (simp add: process_visit_scheduling_def Let_def case_prod_unfold split: option.split)

lemma process_visit_scheduling_outcome:
  fixes env th ph db
  defines "tz \<equiv> gettz_America_Chicago env"
  assumes "process_visit_scheduling env th ph db = (r, db')"
  shows "(db' = db \<and> (\<forall>x. r = Some x \<longrightarrow> \<not> visit_scheduled x))
    \<or> (\<exists>t m. \<not> conflict t (get_visit_availability tz (now_ct_reading env)
                 (now_ct_reading env + timedelta_days 2) (visits db))
          \<and> r = Some \<lparr>message = m, visit_scheduled = True\<rparr>
          \<and> db' = db\<lparr>visits := snd (create_visit tz (wall_reading env) (inserted_id env) th t
                ph (find_car_listing_id th (carlistings db)) None (visits db))\<rparr>)"
proof -
  define now where "now = now_ct_reading env"
  define e where "e = now + timedelta_days 2"
  define ev where "ev = get_visit_availability tz now e (visits db)"
  define c where "c = find_car_listing_id th (carlistings db)"
  define P where "P = propose_available_time (wall_reading env) (inserted_id env) now e ev tz
    th ph c db"
  let ?goal = "\<lambda>r d. (d = db \<and> (\<forall>x. r = Some x \<longrightarrow> \<not> visit_scheduled x))
    \<or> (\<exists>t m. \<not> conflict t ev \<and> r = Some \<lparr>message = m, visit_scheduled = True\<rparr>
      \<and> d = db\<lparr>visits := snd (create_visit tz (wall_reading env) (inserted_id env) th t ph c
            None (visits db))\<rparr>)"
  have P: "?goal (Some (fst P)) (snd P)"
  proof -
    obtain m s where fp: "fst P = \<lparr>message = m, visit_scheduled = s\<rparr>"
      by (cases "fst P") auto
    have "propose_available_time (wall_reading env) (inserted_id env) now e ev tz th ph c db
        = (fst P, snd P)" by (simp add: P_def)
    from propose_available_time_cases [OF this] show ?thesis
      unfolding fp by auto
  qed
  have free: "\<And>p a. find_next_available_time (later_readings env) p ev e = Some a \<Longrightarrow>
      \<not> conflict a ev"
    by (rule find_next_available_time_free)
  from assms(2) have "?goal r db'"
    unfolding process_visit_scheduling_unfold Let_def tz_def [symmetric] now_def [symmetric]
      e_def [symmetric] ev_def [symmetric] c_def [symmetric] P_def [symmetric]
    using P free by (auto split: if_splits option.splits)
  then show ?thesis unfolding ev_def e_def now_def c_def .
qed

lemma no_conflict_far:
  "\<not> conflict t ev \<Longrightarrow> v \<in> set ev \<Longrightarrow> 3600 * 1000000 \<le> \<bar>t - visit_time v\<bar>"
  by (auto simp add: conflict_iff visit_time_def less_than_1_hour_apart_def time_diff_def
      us_per_second_def)

section \<open>A visit the engine books and the context it was checked against\<close>

text \<open>
  What the loops establish. Whatever path \<^verbatim>\<open>process_visit_scheduling\<close> takes, it
  either leaves the database as it was and reports no visit, or it reports a visit and
  appends exactly one document to the visits collection, with status \<^verbatim>\<open>scheduled\<close>
  and for the thread. The Central-Time reading \<open>t\<close> that was booked is at least 3600
  seconds away from the \<^verbatim>\<open>visit_time\<close> of every visit of the context, which is the UTC
  reading of that visit's instant; what is stored for the new visit is the instant of
  \<open>t\<close>, that is \<open>t\<close> less the UTC offset.
\<close>

lemma booked_reading_clear_of_visit_times:
  fixes env th ph db
  defines "R \<equiv> process_visit_scheduling env th ph db"
    and "ct_tz \<equiv> gettz_America_Chicago env"
  defines "existing_visits \<equiv> get_visit_availability ct_tz (now_ct_reading env)
           (now_ct_reading env + timedelta_days 2) (visits db)"
  shows "(snd R = db \<and> (\<forall>x. fst R = Some x \<longrightarrow> \<not> visit_scheduled x))
    \<or> (\<exists>t b m. fst R = Some \<lparr>message = m, visit_scheduled = True\<rparr>
          \<and> snd R = db\<lparr>visits := visits db @ [\<lparr>oid = inserted_id env, body = b\<rparr>]\<rparr>
          \<and> b ''scheduledTime'' = Some (BDate (encode_datetime (Some ct_tz) t))
          \<and> b ''status'' = Some (BStr ''scheduled'')
          \<and> b ''threadId'' = Some (BOid th)
          \<and> (\<forall>v \<in> set existing_visits. 3600 * 1000000 \<le> \<bar>t - visit_time v\<bar>))"
proof -
  have "process_visit_scheduling env th ph db = (fst R, snd R)" by (simp add: R_def)
  from process_visit_scheduling_outcome [OF this]
  show ?thesis
  proof
    assume "snd R = db \<and> (\<forall>x. fst R = Some x \<longrightarrow> \<not> visit_scheduled x)"
    then show ?thesis by blast
  next
    assume "\<exists>t m. \<not> conflict t (get_visit_availability (gettz_America_Chicago env)
                 (now_ct_reading env) (now_ct_reading env + timedelta_days 2) (visits db))
          \<and> fst R = Some \<lparr>message = m, visit_scheduled = True\<rparr>
          \<and> snd R = db\<lparr>visits := snd (create_visit (gettz_America_Chicago env)
                (wall_reading env) (inserted_id env) th t ph
                (find_car_listing_id th (carlistings db)) None (visits db))\<rparr>"
    then obtain t m where free: "\<not> conflict t existing_visits"
      and r: "fst R = Some \<lparr>message = m, visit_scheduled = True\<rparr>"
      and d: "snd R = db\<lparr>visits := snd (create_visit ct_tz (wall_reading env) (inserted_id env)
                th t ph (find_car_listing_id th (carlistings db)) None (visits db))\<rparr>"
      unfolding existing_visits_def ct_tz_def by blast
    from create_visit_snd [of ct_tz "wall_reading env" "inserted_id env" th t ph
        "find_car_listing_id th (carlistings db)" "visits db"]
    obtain b where b: "snd (create_visit ct_tz (wall_reading env) (inserted_id env) th t ph
          (find_car_listing_id th (carlistings db)) None (visits db))
          = visits db @ [\<lparr>oid = inserted_id env, body = b\<rparr>]"
      "b ''scheduledTime'' = Some (BDate (encode_datetime (Some ct_tz) t))"
      "b ''status'' = Some (BStr ''scheduled'')"
      "b ''threadId'' = Some (BOid th)"
      by blast
    have "\<forall>v \<in> set existing_visits. 3600 * 1000000 \<le> \<bar>t - visit_time v\<bar>"
      using free by (blast intro: no_conflict_far)
    with r d b show ?thesis by auto
  qed
qed

lemma first_booking:
  "process_visit_scheduling first_env 2 ''+15550002'' empty_db
     = (Some \<lparr>message = Perfect (combine 1 10), visit_scheduled = True\<rparr>,
        \<lparr>threads = [], messages = [], carlistings = [],
         visits = [\<lparr>oid = 8, body = [''threadId'' \<mapsto> BOid 2,
            ''scheduledTime'' \<mapsto> BDate (combine 1 15),
            ''dealerPhoneNumber'' \<mapsto> BStr ''+15550002'',
            ''status'' \<mapsto> BStr ''scheduled'',
            ''createdAt'' \<mapsto> BDate (combine 0 8),
            ''updatedAt'' \<mapsto> BDate (combine 0 8)]\<rparr>]\<rparr>)"
  by (simp add: process_visit_scheduling_def first_env_def empty_db_def create_visit_def
      Let_def central_daylight_def encode_datetime_def combine_def timedelta_days_def
      timedelta_hours_def us_per_second_def)

lemma booked_db_visits:
  "booked_db = \<lparr>threads = [], messages = [], carlistings = [],
         visits = [\<lparr>oid = 8, body = [''threadId'' \<mapsto> BOid 2,
            ''scheduledTime'' \<mapsto> BDate (combine 1 15),
            ''dealerPhoneNumber'' \<mapsto> BStr ''+15550002'',
            ''status'' \<mapsto> BStr ''scheduled'',
            ''createdAt'' \<mapsto> BDate (combine 0 8),
            ''updatedAt'' \<mapsto> BDate (combine 0 8)]\<rparr>]\<rparr>"
  unfolding booked_db_def first_booking by simp

lemma second_context:
  "get_visit_availability (gettz_America_Chicago second_env) (now_ct_reading second_env)
       (now_ct_reading second_env + timedelta_days 2) (visits booked_db)
     = [\<lparr>visitId = 8, scheduledTime = combine 1 15,
         dealerPhoneNumber = Some (BStr ''+15550002''), status = BStr ''scheduled''\<rparr>]"
  unfolding booked_db_visits
  by (simp add: second_env_def first_env_def central_daylight_def encode_datetime_def
      combine_def timedelta_days_def timedelta_hours_def us_per_second_def)

lemma second_booking:
  "process_visit_scheduling second_env 1 ''+15550001'' booked_db
     = (Some \<lparr>message = Perfect (combine 1 10), visit_scheduled = True\<rparr>,
        booked_db\<lparr>visits := snd (create_visit central_daylight (combine 0 9) 9 1 (combine 1 10)
            ''+15550001'' None None (visits booked_db))\<rparr>)"
proof -
  have "carlistings booked_db = []" unfolding booked_db_visits by simp
  then show ?thesis
    unfolding process_visit_scheduling_unfold Let_def second_context
    by (simp add: second_env_def first_env_def visit_time_def
        combine_def timedelta_days_def timedelta_hours_def us_per_second_def
        less_than_1_hour_apart_def time_diff_def)
qed

text \<open>
  Claim C10 says that a visit the engine creates has its \<^verbatim>\<open>scheduledTime\<close> at least
  3600 seconds away from every visit of the availability context it was checked
  against. In the scenario the engine books 10:00 of day 1 for thread 2 and stores
  the instant, 15:00 UTC. For thread 1 it loads that visit into the context, reads its
  date as 15:00 Central Time, finds 10:00 free and books it: the collection then
  holds two visits with status \<^verbatim>\<open>scheduled\<close> and the same \<^verbatim>\<open>scheduledTime\<close>, the second
  of them 0 seconds away from the visit of the context.
\<close>

theorem C10_same_instant_booked_twice:
  "process_visit_scheduling first_env 2 ''+15550002'' empty_db
     = (Some \<lparr>message = Perfect (combine 1 10), visit_scheduled = True\<rparr>, booked_db)
   \<and> get_visit_availability (gettz_America_Chicago second_env) (now_ct_reading second_env)
       (now_ct_reading second_env + timedelta_days 2) (visits booked_db)
     = [\<lparr>visitId = 8, scheduledTime = combine 1 15,
         dealerPhoneNumber = Some (BStr ''+15550002''), status = BStr ''scheduled''\<rparr>]
   \<and> fst (process_visit_scheduling second_env 1 ''+15550001'' booked_db)
     = Some \<lparr>message = Perfect (combine 1 10), visit_scheduled = True\<rparr>
   \<and> map (\<lambda>v. (oid v, body v ''threadId'', body v ''scheduledTime'', body v ''status''))
       (visits (snd (process_visit_scheduling second_env 1 ''+15550001'' booked_db)))
     = [(8, Some (BOid 2), Some (BDate (combine 1 15)), Some (BStr ''scheduled'')),
        (9, Some (BOid 1), Some (BDate (combine 1 15)), Some (BStr ''scheduled''))]"
proof (intro conjI)
  show "process_visit_scheduling first_env 2 ''+15550002'' empty_db
     = (Some \<lparr>message = Perfect (combine 1 10), visit_scheduled = True\<rparr>, booked_db)"
    unfolding booked_db_visits by (rule first_booking)
  show "get_visit_availability (gettz_America_Chicago second_env) (now_ct_reading second_env)
       (now_ct_reading second_env + timedelta_days 2) (visits booked_db)
     = [\<lparr>visitId = 8, scheduledTime = combine 1 15,
         dealerPhoneNumber = Some (BStr ''+15550002''), status = BStr ''scheduled''\<rparr>]"
    by (rule second_context)
  show "fst (process_visit_scheduling second_env 1 ''+15550001'' booked_db)
     = Some \<lparr>message = Perfect (combine 1 10), visit_scheduled = True\<rparr>"
    unfolding second_booking by simp
  show "map (\<lambda>v. (oid v, body v ''threadId'', body v ''scheduledTime'', body v ''status''))
       (visits (snd (process_visit_scheduling second_env 1 ''+15550001'' booked_db)))
     = [(8, Some (BOid 2), Some (BDate (combine 1 15)), Some (BStr ''scheduled'')),
        (9, Some (BOid 1), Some (BDate (combine 1 15)), Some (BStr ''scheduled''))]"
    unfolding second_booking
    by (simp add: booked_db_visits create_visit_def Let_def central_daylight_def
        encode_datetime_def combine_def timedelta_hours_def timedelta_days_def
        us_per_second_def)
qed

section \<open>A proposed time in the past\<close>

text \<open>
  Claim C5. When the time extracted from the dealer's message is strictly before
  \<^verbatim>\<open>now_ct\<close>, \<^verbatim>\<open>process_visit_scheduling\<close> returns what \<^verbatim>\<open>propose_available_time\<close>
  returns, and a visit it books lies strictly after the proposed time: none is booked
  at the proposed time.
\<close>

theorem C5_past_time_falls_back:
  fixes env th ph db p
  defines "ct_tz \<equiv> gettz_America_Chicago env"
  defines "now_ct \<equiv> now_ct_reading env"
  defines "P \<equiv> propose_available_time (wall_reading env) (inserted_id env) now_ct
      (now_ct + timedelta_days 2)
      (get_visit_availability ct_tz now_ct (now_ct + timedelta_days 2) (visits db))
      ct_tz th ph (find_car_listing_id th (carlistings db)) db"
  assumes "client_configured env" and "model_reply env = Some data"
    and "parse_proposed env data = Some p" and "p < now_ct"
  shows "process_visit_scheduling env th ph db = (Some (fst P), snd P)
    \<and> (snd (process_visit_scheduling env th ph db) = db
        \<or> (\<exists>t. p < t \<and> snd (process_visit_scheduling env th ph db)
              = db\<lparr>visits := snd (create_visit ct_tz (wall_reading env) (inserted_id env) th t
                    ph (find_car_listing_id th (carlistings db)) None (visits db))\<rparr>))"
proof -
  have eq: "process_visit_scheduling env th ph db = (Some (fst P), snd P)"
    using assms(4-7)
    by (simp add: process_visit_scheduling_unfold Let_def P_def now_ct_def ct_tz_def)
  have "propose_available_time (wall_reading env) (inserted_id env) now_ct
      (now_ct + timedelta_days 2)
      (get_visit_availability ct_tz now_ct (now_ct + timedelta_days 2) (visits db))
      ct_tz th ph (find_car_listing_id th (carlistings db)) db = (fst P, snd P)"
    by (simp add: P_def)
  from propose_available_time_cases [OF this]
  consider "snd P = db"
    | t where "now_ct \<le> t" and "snd P
              = db\<lparr>visits := snd (create_visit ct_tz (wall_reading env) (inserted_id env) th t
                    ph (find_car_listing_id th (carlistings db)) None (visits db))\<rparr>"
    by blast
  then have "snd P = db \<or> (\<exists>t. p < t \<and> snd P
              = db\<lparr>visits := snd (create_visit ct_tz (wall_reading env) (inserted_id env) th t
                    ph (find_car_listing_id th (carlistings db)) None (visits db))\<rparr>)"
  proof cases
    case 1
    then show ?thesis by simp
  next
    case 2
    moreover from 2(1) assms(7) have "p < t" by simp
    ultimately show ?thesis by blast
  qed
  with eq show ?thesis by simp
qed

lemma past_propose:
  "propose_available_time 0 8 (combine 0 12) (combine 0 12 + timedelta_days 2)
      (get_visit_availability central_daylight (combine 0 12)
         (combine 0 12 + timedelta_days 2) (visits scenario_db))
      central_daylight 1 ''+15550001'' None scenario_db
    = (\<lparr>message = ComeBy (combine 1 14), visit_scheduled = True\<rparr>,
       scenario_db\<lparr>visits := snd (create_visit central_daylight 0 8 1 (combine 1 14)
          ''+15550001'' None None (visits scenario_db))\<rparr>)"
  by (simp add: scenario_db_def propose_available_time_def Let_def scan_days.simps
      central_daylight_def encode_datetime_def visit_time_def
      combine_def timedelta_days_def timedelta_hours_def date_of_def hour_of_def
      us_per_second_def less_than_1_hour_apart_def time_diff_def)

theorem C5_past_time_witness:
  "client_configured past_env
   \<and> combine 0 11 < now_ct_reading past_env
   \<and> process_visit_scheduling past_env 1 ''+15550001'' scenario_db
     = (Some \<lparr>message = ComeBy (combine 1 14), visit_scheduled = True\<rparr>,
        scenario_db\<lparr>visits := snd (create_visit central_daylight 0 8 1 (combine 1 14)
          ''+15550001'' None None (visits scenario_db))\<rparr>)"
proof -
  have a: "client_configured past_env" by (simp add: past_env_def scenario_env_def)
  have b: "model_reply past_env = Some \<lparr>dealer_proposed_date = Some ''2024-06-07'',
       dealer_proposed_time = Some ''10:00'',
       dealer_proposed_datetime = Some ''2024-06-07T10:00:00''\<rparr>"
    by (simp add: past_env_def scenario_env_def)
  have c: "parse_proposed past_env \<lparr>dealer_proposed_date = Some ''2024-06-07'',
       dealer_proposed_time = Some ''10:00'',
       dealer_proposed_datetime = Some ''2024-06-07T10:00:00''\<rparr> = Some (combine 0 11)"
    by (simp add: past_env_def)
  have d: "combine 0 11 < now_ct_reading past_env"
    by (simp add: past_env_def combine_def timedelta_hours_def us_per_second_def)
  have e: "now_ct_reading past_env = combine 0 12" "wall_reading past_env = 0"
    "inserted_id past_env = 8" "find_car_listing_id 1 (carlistings scenario_db) = None"
    "gettz_America_Chicago past_env = central_daylight"
    by (simp_all add: past_env_def scenario_env_def scenario_db_def)
  from C5_past_time_falls_back [OF a b c d, of 1 "''+15550001''" scenario_db] a d
  show ?thesis unfolding e past_propose by simp
qed

section \<open>The alternative search\<close>






section \<open>The proposal fallback\<close>












section \<open>The classifier's fast path\<close>

lemma is_just_acknowledgment_iff:
  "is_just_acknowledgment m \<longleftrightarrow>
     (\<exists>p \<in> set acknowledgment_patterns. re_search p (lower m))
     \<and> (\<forall>c \<in> set m. \<not> is_digit c) \<and> CHR ''$'' \<notin> set m"
  by (simp add: is_just_acknowledgment_def Let_def list_ex_iff)

text \<open>
  Claim C6, as the code has it. With \<^verbatim>\<open>openai_client\<close> set, the classifier answers
  \<^verbatim>\<open>False\<close> without a call to the model exactly when the lower-cased message matches an
  acknowledgment pattern, the message has no digit and it has no \<^verbatim>\<open>$\<close>; every other
  message is answered from the model's reply (or \<^verbatim>\<open>True\<close> when something raises).
  Without a client the classifier answers \<^verbatim>\<open>True\<close> for every message.
\<close>

theorem C6_fast_path_when_client_set:
  "message_contains_new_information True create m known_info =
     (if (\<exists>p \<in> set acknowledgment_patterns. re_search p (lower m))
         \<and> (\<forall>c \<in> set m. \<not> is_digit c) \<and> CHR ''$'' \<notin> set m
      then (False, [])
      else (case known_info of
              None \<Rightarrow> (True, [])
            | Some section \<Rightarrow>
                (case create \<lparr>known_info_section = section, dealer_message = m\<rparr> of
                   Raises \<Rightarrow> True
                 | Choices [] \<Rightarrow> True
                 | Choices (None # _) \<Rightarrow> True
                 | Choices (Some content # _) \<Rightarrow> upper (strip content) = ''YES'',
                 [\<lparr>known_info_section = section, dealer_message = m\<rparr>])))
   \<and> message_contains_new_information False create m known_info = (True, [])"
  unfolding is_just_acknowledgment_iff [symmetric]
  by (simp add: message_contains_new_information_def Let_def
      split: option.split completion.split list.split)

lemma ack_example: "is_just_acknowledgment ''Sounds good, I will get back to you''"
  by (simp add: is_just_acknowledgment_def Let_def acknowledgment_patterns_def lower_def
      lower_char_def is_digit_def)

lemma digit_example: "\<not> is_just_acknowledgment ''Sounds good, it has 42k miles''"
  by (simp add: is_just_acknowledgment_def Let_def is_digit_def)

theorem C6_fast_path_witness:
  "message_contains_new_information True (\<lambda>_. Choices [Some ''Yes''])
      ''Sounds good, I will get back to you'' (Some '''') = (False, [])
   \<and> message_contains_new_information True (\<lambda>_. Choices [Some ''Yes''])
      ''Sounds good, it has 42k miles'' (Some '''')
     = (True, [\<lparr>known_info_section = '''',
                 dealer_message = ''Sounds good, it has 42k miles''\<rparr>])"
  using C6_fast_path_when_client_set [of "\<lambda>_. Choices [Some ''Yes'']"
      "''Sounds good, I will get back to you''" "Some ''''"]
    C6_fast_path_when_client_set [of "\<lambda>_. Choices [Some ''Yes'']"
      "''Sounds good, it has 42k miles''" "Some ''''"]
    ack_example digit_example
  unfolding is_just_acknowledgment_iff
  by (simp add: upper_def upper_char_def strip_def is_space_def)

text \<open>
  Claim C6 as stated fails when no client is configured: the first statement of the
  function returns \<^verbatim>\<open>True\<close> before the patterns are looked at.
\<close>

theorem C6_no_client_counterexample:
  "(\<exists>p \<in> set acknowledgment_patterns. re_search p (lower ''Sounds good, I will get back to you''))
   \<and> \<not> list_ex is_digit ''Sounds good, I will get back to you''
   \<and> CHR ''$'' \<notin> set ''Sounds good, I will get back to you''
   \<and> message_contains_new_information False (\<lambda>_. Choices [Some ''NO''])
        ''Sounds good, I will get back to you'' (Some '''') = (True, [])"
  using ack_example unfolding is_just_acknowledgment_iff
  by (simp add: message_contains_new_information_def list_ex_iff)

text \<open>
  Claim C7. When the classifier calls the model and the call raises, the classifier
  answers \<^verbatim>\<open>True\<close>.
\<close>

theorem C7_model_failure_fails_open:
  assumes "\<not> is_just_acknowledgment m"
    and "create \<lparr>known_info_section = section, dealer_message = m\<rparr> = Raises"
  shows "message_contains_new_information True create m (Some section)
     = (True, [\<lparr>known_info_section = section, dealer_message = m\<rparr>])"
  using assms by (simp add: message_contains_new_information_def Let_def)

theorem C7_model_failure_witness:
  "\<not> is_just_acknowledgment ''Sounds good, it has 42k miles''
   \<and> message_contains_new_information True (\<lambda>_. Raises) ''Sounds good, it has 42k miles''
        (Some '''')
     = (True, [\<lparr>known_info_section = '''',
                 dealer_message = ''Sounds good, it has 42k miles''\<rparr>])"
  using C7_model_failure_fails_open [of "''Sounds good, it has 42k miles''" "\<lambda>_. Raises" "''''"]
    digit_example
  by simp

section \<open>Modifying a visit\<close>

text \<open>The \<^verbatim>\<open>$set\<close> itself leaves every key outside the update as it was.\<close>

lemma set_keys_other:
  "k \<notin> fst ` set update \<Longrightarrow> set_keys update b k = b k"
  unfolding set_keys_def by (induction update arbitrary: b) auto

text \<open>
  Claim C9 says that \<^verbatim>\<open>modify_visit\<close> refreshes \<^verbatim>\<open>updatedAt\<close> and sets the fields it is
  given. Every call instead ends at line 859 with \<^verbatim>\<open>NameError\<close>, before
  \<^verbatim>\<open>Visit.update_one\<close> is reached: the name \<^verbatim>\<open>ObjectId\<close> is bound neither in the body nor
  at module level.
\<close>

theorem C9_modify_visit_raises_NameError:
  "modify_visit wall visit_id scheduled_time notes status_arg visits_coll
     = Inl (NameError ''ObjectId'')"
  by (simp add: modify_visit_def Let_def lookup_name_def utils_module_names_def
      builtin_names_def split: option.split)

section \<open>A message for a complete thread\<close>

lemma find_one_Some: "find_one q ds = Some t \<Longrightarrow> t \<in> set ds \<and> q t"
  by (induction ds) (auto split: if_splits)

lemma update_one_find_one:
  "distinct (map oid ds) \<Longrightarrow> t \<in> set ds \<Longrightarrow>
     find_one (\<lambda>d. oid d = oid t) (fst (update_one (\<lambda>d. oid d = oid t) upd ds))
       = Some (t\<lparr>body := set_keys upd (body t)\<rparr>)"
proof (induction ds)
  case Nil
  then show ?case by simp
next
  case (Cons d ds)
  show ?case
  proof (cases "oid d = oid t")
    case True
    with Cons.prems have "d = t" by (auto simp add: image_iff)
    then show ?thesis by simp
  next
    case False
    with Cons.prems have "t \<in> set ds" "distinct (map oid ds)" by auto
    with Cons.IH False show ?thesis by (simp add: case_prod_unfold Let_def)
  qed
qed

lemma update_one_other_key:
  "k \<notin> fst ` set upd \<Longrightarrow>
     map (\<lambda>d. (oid d, body d k)) (fst (update_one q upd ds)) = map (\<lambda>d. (oid d, body d k)) ds"
  by (induction ds) (simp_all add: case_prod_unfold Let_def set_keys_other)


lemma load_thread_existing:
  fixes sv :: services and webhook :: SMSWebhook and w :: world and t0 :: document and n :: int
  assumes found: "find_one (\<lambda>d. body d ''phoneNumber'' = Some (BStr (fromNumber webhook)))
        (threads (store w)) = Some t0"
    and ids: "distinct (map oid (threads (store w)))"
    and unread: "body t0 ''unreadCount'' = Some (BInt n)"
  defines "update \<equiv> [(''lastMessage'', BStr (webhook_message webhook)),
      (''lastMessageTime'', BDate (encode_datetime None (webhook_time sv webhook))),
      (''unreadCount'', BInt (n + 1))]"
  shows "load_thread sv webhook w
    = Some (t0\<lparr>body := set_keys update (body t0)\<rparr>, update_thread (oid t0) update w)"
proof -
  from found have mem: "t0 \<in> set (threads (store w))" by (auto dest: find_one_Some)
  have "find_one (\<lambda>d. oid d = oid t0) (threads (store (update_thread (oid t0) update w)))
      = Some (t0\<lparr>body := set_keys update (body t0)\<rparr>)"
    using update_one_find_one [OF ids mem, of update] by (simp add: update_thread_def)
  with found unread show ?thesis
    by (simp add: load_thread_def Let_def update_def)
qed

text \<open>
  Claim C8. An inbound message that is not empty and not the opt-in boilerplate arrives
  for a stored thread whose \<^verbatim>\<open>conversationComplete\<close> is true (ids in the collection are
  unique, the thread's \<^verbatim>\<open>unreadCount\<close> is a number). The handler updates the thread's
  last message, its time and its unread count, stores the message, and returns the
  success body "Conversation complete, no response sent". Nothing else happens: no
  text message is sent, neither the classifier nor the negotiation agent nor the
  Scheduling Engine is called, \<^verbatim>\<open>pending_responses\<close>, the visits and the listings are as
  before, and no thread's \<^verbatim>\<open>conversationComplete\<close> or \<^verbatim>\<open>waitingForDealerResponse\<close>
  changes.
\<close>

theorem C8_complete_thread_no_op:
  fixes sv webhook w t0 n
  defines "update \<equiv> [(''lastMessage'', BStr (webhook_message webhook)),
      (''lastMessageTime'', BDate (encode_datetime None (webhook_time sv webhook))),
      (''unreadCount'', BInt (n + 1))]"
  defines "result \<equiv> sms_webhook sv webhook w"
  assumes "fromNumber webhook \<noteq> []" and "webhook_message webhook \<noteq> []"
    and "\<not> search_lit (lower ''Thanks for opting in to receive messages from us!'')
            (lower (webhook_message webhook))"
    and "distinct (map oid (threads (store w)))"
    and "find_one (\<lambda>d. body d ''phoneNumber'' = Some (BStr (fromNumber webhook)))
           (threads (store w)) = Some t0"
    and "body t0 ''unreadCount'' = Some (BInt n)"
    and "bson_truthy (body t0 ''conversationComplete'')"
  shows "result = (Success ''Conversation complete, no response sent'',
                   save_inbound sv webhook (t0\<lparr>body := set_keys update (body t0)\<rparr>)
                     (update_thread (oid t0) update w))
    \<and> sms_sent (snd result) = sms_sent w
    \<and> classifier_calls (snd result) = classifier_calls w
    \<and> agent_calls (snd result) = agent_calls w
    \<and> scheduling_runs (snd result) = scheduling_runs w
    \<and> pending_responses (snd result) = pending_responses w
    \<and> visits (store (snd result)) = visits (store w)
    \<and> carlistings (store (snd result)) = carlistings (store w)
    \<and> map (\<lambda>d. (oid d, body d ''conversationComplete'')) (threads (store (snd result)))
        = map (\<lambda>d. (oid d, body d ''conversationComplete'')) (threads (store w))
    \<and> map (\<lambda>d. (oid d, body d ''waitingForDealerResponse'')) (threads (store (snd result)))
        = map (\<lambda>d. (oid d, body d ''waitingForDealerResponse'')) (threads (store w))
    \<and> (\<exists>m. messages (store (snd result)) = messages (store w) @ [m]
            \<and> body m ''direction'' = Some (BStr ''inbound'')
            \<and> body m ''body'' = Some (BStr (webhook_message webhook))
            \<and> body m ''threadId'' = Some (BOid (oid t0)))"
proof -
  have loaded: "load_thread sv webhook w
      = Some (t0\<lparr>body := set_keys update (body t0)\<rparr>, update_thread (oid t0) update w)"
    unfolding update_def by (rule load_thread_existing [OF assms(7,6,8)])
  have "set_keys update (body t0) ''conversationComplete'' = body t0 ''conversationComplete''"
    by (rule set_keys_other) (simp add: update_def)
  with assms(9) have complete:
    "bson_truthy (body (t0\<lparr>body := set_keys update (body t0)\<rparr>) ''conversationComplete'')"
    by simp
  have result: "result = (Success ''Conversation complete, no response sent'',
                   save_inbound sv webhook (t0\<lparr>body := set_keys update (body t0)\<rparr>)
                     (update_thread (oid t0) update w))"
    unfolding result_def sms_webhook_def Let_def using assms(3-5) loaded complete by simp
  have cc: "map (\<lambda>d. (oid d, body d ''conversationComplete''))
        (fst (update_one (\<lambda>d. oid d = oid t0) update (threads (store w))))
      = map (\<lambda>d. (oid d, body d ''conversationComplete'')) (threads (store w))"
    by (rule update_one_other_key) (simp add: update_def)
  have wf: "map (\<lambda>d. (oid d, body d ''waitingForDealerResponse''))
        (fst (update_one (\<lambda>d. oid d = oid t0) update (threads (store w))))
      = map (\<lambda>d. (oid d, body d ''waitingForDealerResponse'')) (threads (store w))"
    by (rule update_one_other_key) (simp add: update_def)
  show ?thesis
    unfolding result
    by (simp add: save_inbound_def update_thread_def insert_one_def set_keys_def cc wf)
qed


theorem C8_complete_thread_witness:
  "fst (sms_webhook example_services example_webhook complete_world)
     = Success ''Conversation complete, no response sent''
   \<and> sms_sent (snd (sms_webhook example_services example_webhook complete_world)) = []
   \<and> agent_calls (snd (sms_webhook example_services example_webhook complete_world)) = []
   \<and> classifier_calls (snd (sms_webhook example_services example_webhook complete_world)) = []
   \<and> scheduling_runs (snd (sms_webhook example_services example_webhook complete_world)) = 0
   \<and> map (\<lambda>d. body d ''conversationComplete'')
        (threads (store (snd (sms_webhook example_services example_webhook complete_world))))
      = [Some (BBool True)]"
proof -
  have a: "fromNumber example_webhook \<noteq> []" "webhook_message example_webhook \<noteq> []"
    by (simp_all add: example_webhook_def)
  have b: "\<not> search_lit (lower ''Thanks for opting in to receive messages from us!'')
            (lower (webhook_message example_webhook))"
    by (simp add: example_webhook_def lower_def lower_char_def)
  have c: "distinct (map oid (threads (store complete_world)))"
    by (simp add: complete_world_def)
  have d: "find_one (\<lambda>d. body d ''phoneNumber'' = Some (BStr (fromNumber example_webhook)))
           (threads (store complete_world)) = Some complete_thread"
    by (simp add: complete_world_def complete_thread_def example_webhook_def)
  have e: "body complete_thread ''unreadCount'' = Some (BInt 0)"
    by (simp add: complete_thread_def)
  have f: "bson_truthy (body complete_thread ''conversationComplete'')"
    by (simp add: complete_thread_def)
  define R where "R = sms_webhook example_services example_webhook complete_world"
  note r = C8_complete_thread_no_op [OF a b c d e f, of example_services, folded R_def]
  from r have 1: "fst R = Success ''Conversation complete, no response sent''" by simp
  have 2: "sms_sent (snd R) = []" "agent_calls (snd R) = []" "classifier_calls (snd R) = []"
    "scheduling_runs (snd R) = 0"
    using r [THEN conjunct2] by (simp_all add: complete_world_def)
  have "map (\<lambda>d. (oid d, body d ''conversationComplete'')) (threads (store (snd R)))
      = map (\<lambda>d. (oid d, body d ''conversationComplete'')) (threads (store complete_world))"
    using r [THEN conjunct2] by blast
  then have "map snd (map (\<lambda>d. (oid d, body d ''conversationComplete''))
        (threads (store (snd R))))
      = map snd (map (\<lambda>d. (oid d, body d ''conversationComplete''))
          (threads (store complete_world)))"
    by (rule arg_cong)
  then have 3: "map (\<lambda>d. body d ''conversationComplete'') (threads (store (snd R)))
      = [Some (BBool True)]"
    by (simp add: comp_def complete_world_def complete_thread_def)
  from 1 2 3 show ?thesis unfolding R_def by simp
qed

text \<open>For comparison: the same message on the same thread, not complete, reaches the agent.\<close>

lemma open_thread_is_answered:
  "agent_calls (snd (sms_webhook example_services example_webhook
      (complete_world\<lparr>store := (store complete_world)\<lparr>threads :=
          [complete_thread\<lparr>body := (body complete_thread)(''conversationComplete'' \<mapsto> BBool False)\<rparr>]\<rparr>\<rparr>)))
    = [''Dealer: Is Friday still fine?'']"
  by (simp add: sms_webhook_def load_thread_def respond_def generate_reply_def Let_def
      example_services_def example_webhook_def complete_world_def complete_thread_def
      save_inbound_def update_thread_def insert_one_def set_keys_def webhook_time_def
      build_conversation_transcript_def lower_def lower_char_def)

end
